theory Spec2Isabelle
  imports Complex_Main
begin

section \<open>Configuration (backend/data_generators/config.py)\<close>

definition MERCHANT_CATEGORIES :: "string list" where
  "MERCHANT_CATEGORIES =
     [''grocery'', ''restaurant'', ''gas_station'', ''pharmacy'', ''electronics'',
      ''clothing'', ''entertainment'', ''travel'', ''utilities'', ''online_retail'']"

text \<open>The dictionary of spending ranges, in the order of the source.\<close>

definition CATEGORY_SPENDING_RANGES :: "(string \<times> (real \<times> real)) list" where
  "CATEGORY_SPENDING_RANGES =
     [(''grocery'', (20, 150)),
      (''restaurant'', (15, 80)),
      (''gas_station'', (30, 70)),
      (''pharmacy'', (10, 100)),
      (''electronics'', (50, 500)),
      (''clothing'', (30, 200)),
      (''entertainment'', (20, 150)),
      (''travel'', (100, 1000)),
      (''utilities'', (50, 300)),
      (''online_retail'', (25, 250))]"

definition US_LAT_RANGE :: "real \<times> real" where
  "US_LAT_RANGE = (25, 49)"

definition US_LON_RANGE :: "real \<times> real" where
  "US_LON_RANGE = (- 125, - 66)"

definition FRAUD_PROBABILITY :: real where
  "FRAUD_PROBABILITY = 2 / 100"

section \<open>Data model (backend/data_generators/models/transaction.py)\<close>

text \<open>
  Python floats are modelled as reals. A \<open>datetime\<close> is naive (no time zone) and has
  microsecond resolution: it is modelled as the number of microseconds since the start of
  day one of the calendar, so that adding a \<open>timedelta\<close> is integer addition.
\<close>

record user =
  user_id :: string
  name :: string
  email :: string
  phone :: string
  home_lat :: real
  home_lon :: real
  typical_spending :: real
  account_age_days :: int

record merchant =
  merchant_id :: string
  merchant_name :: string
  category :: string
  location_lat :: real
  location_lon :: real
  average_transaction :: real

record transaction =
  transaction_id :: string
  timestamp :: int
  user_id :: string
  card_number :: string
  merchant_id :: string
  merchant_name :: string
  merchant_category :: string
  amount :: real
  currency :: string
  location_lat :: real
  location_lon :: real
  device_id :: string
  ip_address :: string
  is_fraud :: bool
  fraud_type :: "string option"

text \<open>The values of the flat dictionary that \<open>to_dict\<close> builds.\<close>

datatype pyval = PyStr string | PyFloat real | PyBool bool | PyNone

definition py_optional_str :: "string option \<Rightarrow> pyval" where
  "py_optional_str v = (case v of None \<Rightarrow> PyNone | Some s \<Rightarrow> PyStr s)"

text \<open>
  \<open>to_dict\<close>: \<open>asdict(self)\<close> keeps the declaration order of the fields; the entry
  \<open>timestamp\<close> is then overwritten, in place, by the ISO string. The standard library's
  \<open>datetime.isoformat\<close> is a parameter.
\<close>

definition to_dict :: "(int \<Rightarrow> string) \<Rightarrow> transaction \<Rightarrow> (string \<times> pyval) list" where
  "to_dict isoformat self =
     [(''transaction_id'', PyStr (transaction_id self)),
      (''timestamp'', PyStr (isoformat (timestamp self))),
      (''user_id'', PyStr (transaction.user_id self)),
      (''card_number'', PyStr (card_number self)),
      (''merchant_id'', PyStr (transaction.merchant_id self)),
      (''merchant_name'', PyStr (transaction.merchant_name self)),
      (''merchant_category'', PyStr (merchant_category self)),
      (''amount'', PyFloat (amount self)),
      (''currency'', PyStr (currency self)),
      (''location_lat'', PyFloat (transaction.location_lat self)),
      (''location_lon'', PyFloat (transaction.location_lon self)),
      (''device_id'', PyStr (device_id self)),
      (''ip_address'', PyStr (ip_address self)),
      (''is_fraud'', PyBool (is_fraud self)),
      (''fraud_type'', py_optional_str (fraud_type self))]"

section \<open>The random source and the other library calls\<close>

datatype error = IndexError | KeyError

text \<open>
  \<open>random.choice(seq)\<close> raises IndexError on an empty sequence and otherwise returns
  \<open>seq[_randbelow(len(seq))]\<close>. The first argument is the raw entropy of the call;
  every index below the length is reached by some value of it.
\<close>

definition choice :: "nat \<Rightarrow> 'a list \<Rightarrow> error + 'a" where
  "choice r seq = (if seq = [] then Inl IndexError else Inr (seq ! (r mod length seq)))"

text \<open>
  \<open>random.uniform(a, b)\<close> is \<open>a + (b - a) * random()\<close>; the last argument is the value
  of \<open>random()\<close>, which lies in the half-open unit interval.
\<close>

definition uniform :: "real \<Rightarrow> real \<Rightarrow> real \<Rightarrow> real" where
  "uniform a b u = a + (b - a) * u"

definition unit_draw :: "real \<Rightarrow> bool" where
  "unit_draw u = (0 \<le> u \<and> u < 1)"

text \<open>
  \<open>random.randint(a, b)\<close> is \<open>a + _randbelow(b - a + 1)\<close>; the last argument is the
  raw entropy of the call. Every call of the source has constant bounds with \<open>a \<le> b\<close>, so
  the error of an empty range is not a branch here.
\<close>

definition randint :: "int \<Rightarrow> int \<Rightarrow> nat \<Rightarrow> int" where
  "randint a b r = a + int (r mod nat (b - a + 1))"

text \<open>
  \<open>round(x, 2)\<close> rounds to the nearest multiple of one hundredth, a tie going to the even
  neighbour.
\<close>

definition round_half_even :: "real \<Rightarrow> int" where
  "round_half_even x =
     (let f = \<lfloor>x\<rfloor>; d = x - of_int f
      in if d < 1 / 2 then f
         else if 1 / 2 < d then f + 1
         else if even f then f else f + 1)"

definition py_round :: "real \<Rightarrow> nat \<Rightarrow> real" where
  "py_round x ndigits = of_int (round_half_even (x * 10 ^ ndigits)) / 10 ^ ndigits"

text \<open>\<open>str\<close> of an integer, as the f-strings render it.\<close>

definition digit_char :: "nat \<Rightarrow> char" where
  "digit_char n = ''0123456789'' ! n"

fun str_nat :: "nat \<Rightarrow> string" where
  "str_nat n = (if n < 10 then [digit_char n] else str_nat (n div 10) @ [digit_char (n mod 10)])"

declare str_nat.simps [simp del]

definition str_int :: "int \<Rightarrow> string" where
  "str_int i = (if i < 0 then CHR ''-'' # str_nat (nat (- i)) else str_nat (nat i))"

text \<open>
  What one pass through a loop body of the population generator draws: the string of
  \<open>uuid.uuid4()\<close>, the strings of the identity faker, the values of \<open>random()\<close> behind
  each \<open>uniform\<close> and the entropy behind \<open>randint\<close> and \<open>choice\<close>.
\<close>

record entity_draws =
  e_uuid4 :: string
  e_fake_name :: string
  e_fake_email :: string
  e_fake_phone_number :: string
  e_fake_company :: string
  e_u_lat :: real
  e_u_lon :: real
  e_u_spending :: real
  e_r_age :: nat
  e_r_category :: nat

section \<open>Population (backend/data_generators/generator.py)\<close>

record transaction_generator =
  num_users :: int
  num_merchants :: int
  users :: "user list"
  merchants :: "merchant list"

definition new_user :: "entity_draws \<Rightarrow> user" where
  "new_user d =
     \<lparr>user.user_id = ''USER_'' @ take 8 (e_uuid4 d),
      name = e_fake_name d,
      email = e_fake_email d,
      phone = e_fake_phone_number d,
      home_lat = uniform (fst US_LAT_RANGE) (snd US_LAT_RANGE) (e_u_lat d),
      home_lon = uniform (fst US_LON_RANGE) (snd US_LON_RANGE) (e_u_lon d),
      typical_spending = uniform 50 500 (e_u_spending d),
      account_age_days = randint 30 3650 (e_r_age d)\<rparr>"

text \<open>\<open>for i in range(self.num_users)\<close>: the loop over the indices, appending.\<close>

primrec users_loop :: "(nat \<Rightarrow> entity_draws) \<Rightarrow> nat list \<Rightarrow> user list \<Rightarrow> user list" where
  "users_loop ds [] acc = acc"
| "users_loop ds (i # rest) acc = users_loop ds rest (acc @ [new_user (ds i)])"

definition generate_users ::
  "(nat \<Rightarrow> entity_draws) \<Rightarrow> transaction_generator \<Rightarrow> transaction_generator" where
  "generate_users ds self =
     self\<lparr>transaction_generator.users := users_loop ds [0..<nat (num_users self)] (transaction_generator.users self)\<rparr>"

definition dict_get :: "('k \<times> 'v) list \<Rightarrow> 'k \<Rightarrow> error + 'v" where
  "dict_get d k = (case map_of d k of None \<Rightarrow> Inl KeyError | Some v \<Rightarrow> Inr v)"

definition new_merchant :: "entity_draws \<Rightarrow> error + merchant" where
  "new_merchant d =
     (case choice (e_r_category d) MERCHANT_CATEGORIES of
        Inl e \<Rightarrow> Inl e
      | Inr cat \<Rightarrow>
          (case dict_get CATEGORY_SPENDING_RANGES cat of
             Inl e \<Rightarrow> Inl e
           | Inr rng \<Rightarrow>
               Inr \<lparr>merchant.merchant_id = ''MERCH_'' @ take 8 (e_uuid4 d),
                    merchant.merchant_name = e_fake_company d,
                    category = cat,
                    merchant.location_lat = uniform (fst US_LAT_RANGE) (snd US_LAT_RANGE) (e_u_lat d),
                    merchant.location_lon = uniform (fst US_LON_RANGE) (snd US_LON_RANGE) (e_u_lon d),
                    average_transaction = (fst rng + snd rng) / 2\<rparr>))"

primrec merchants_loop ::
  "(nat \<Rightarrow> entity_draws) \<Rightarrow> nat list \<Rightarrow> merchant list \<Rightarrow> error + merchant list" where
  "merchants_loop ds [] acc = Inr acc"
| "merchants_loop ds (i # rest) acc =
     (case new_merchant (ds i) of
        Inl e \<Rightarrow> Inl e
      | Inr m \<Rightarrow> merchants_loop ds rest (acc @ [m]))"

definition generate_merchants ::
  "(nat \<Rightarrow> entity_draws) \<Rightarrow> transaction_generator \<Rightarrow> error + transaction_generator" where
  "generate_merchants ds self =
     (case merchants_loop ds [0..<nat (num_merchants self)] (transaction_generator.merchants self) of
        Inl e \<Rightarrow> Inl e
      | Inr ms \<Rightarrow> Inr (self\<lparr>transaction_generator.merchants := ms\<rparr>))"

text \<open>
  \<open>TransactionGenerator.__init__\<close>: stores the two counts, starts from two empty pools
  and fills them. The counts are Python integers; nothing looks at their sign.
\<close>

definition TransactionGenerator_init ::
  "int \<Rightarrow> int \<Rightarrow> (nat \<Rightarrow> entity_draws) \<Rightarrow> (nat \<Rightarrow> entity_draws) \<Rightarrow> error + transaction_generator" where
  "TransactionGenerator_init n_users n_merchants uds mds =
     generate_merchants mds
       (generate_users uds
          \<lparr>num_users = n_users, num_merchants = n_merchants,
            transaction_generator.users = [], transaction_generator.merchants = []\<rparr>)"

section \<open>Transactions\<close>

text \<open>
  What the construction of one transaction draws from its environment: the entropy of each
  \<open>random.choice\<close> and \<open>random.randint\<close>, the value of \<open>random()\<close> behind each
  \<open>random.uniform\<close>, the string of \<open>uuid.uuid4()\<close>, the clock \<open>datetime.now()\<close> and
  the faker's address. Every call site has a field of its own, so the record ranges over
  all the outcomes of the shared generator.
\<close>

record draws =
  r_user :: nat
  r_merchant :: nat
  r_generator :: nat
  u_fraud :: real
  uuid4 :: string
  now :: int
  r_card :: nat
  u_amount :: real
  r_round :: nat
  u_lat :: real
  u_lon :: real
  r_sign_lat :: nat
  r_sign_lon :: nat
  r_device :: nat
  r_ip1 :: nat
  r_ip2 :: nat
  r_ip3 :: nat
  r_ip4 :: nat
  fake_ipv4 :: string
  r_count :: nat
  r_offset :: nat
  r_hour :: nat
  r_minute :: nat

definition card_fstring :: "draws \<Rightarrow> string" where
  "card_fstring d = ''****-****-****-'' @ str_int (randint 1000 9999 (r_card d))"

definition ip_fstring :: "draws \<Rightarrow> string" where
  "ip_fstring d =
     str_int (randint 1 255 (r_ip1 d)) @ ''.'' @ str_int (randint 1 255 (r_ip2 d)) @ ''.'' @
     str_int (randint 1 255 (r_ip3 d)) @ ''.'' @ str_int (randint 1 255 (r_ip4 d))"

definition timedelta_seconds :: "int \<Rightarrow> int" where
  "timedelta_seconds k = k * 1000000"

definition timedelta_minutes :: "int \<Rightarrow> int" where
  "timedelta_minutes k = k * 60 * 1000000"

text \<open>\<open>datetime.replace(hour=h, minute=m)\<close>: the day, the second and the microsecond stay.\<close>

definition replace_hour_minute :: "int \<Rightarrow> int \<Rightarrow> int \<Rightarrow> int" where
  "replace_hour_minute t h m =
     t - t mod (24 * 3600 * 1000000) + h * 3600 * 1000000 + m * 60 * 1000000
       + t mod (60 * 1000000)"

subsection \<open>The normal synthesizer and the per-slot draw (generator.py)\<close>

definition generate_normal_transaction :: "transaction_generator \<Rightarrow> draws \<Rightarrow> error + transaction" where
  "generate_normal_transaction self d =
     (case choice (r_user d) (transaction_generator.users self) of
        Inl e \<Rightarrow> Inl e
      | Inr user \<Rightarrow>
     (case choice (r_merchant d) (transaction_generator.merchants self) of
        Inl e \<Rightarrow> Inl e
      | Inr merchant \<Rightarrow>
     (case dict_get CATEGORY_SPENDING_RANGES (category merchant) of
        Inl e \<Rightarrow> Inl e
      | Inr (min_amount, max_amount) \<Rightarrow>
          Inr \<lparr>transaction_id = uuid4 d,
               timestamp = now d,
               user_id = user.user_id user,
               card_number = card_fstring d,
               merchant_id = merchant.merchant_id merchant,
               merchant_name = merchant.merchant_name merchant,
               merchant_category = category merchant,
               amount = py_round (uniform min_amount max_amount (u_amount d)) 2,
               currency = ''USD'',
               location_lat = home_lat user + uniform (- 0.7) 0.7 (u_lat d),
               location_lon = home_lon user + uniform (- 0.7) 0.7 (u_lon d),
               device_id = ''DEVICE_'' @ str_int (randint 1000 9999 (r_device d)),
               ip_address = fake_ipv4 d,
               is_fraud = False,
               fraud_type = None\<rparr>)))"

text \<open>
  \<open>generate_transaction\<close>: the trial \<open>random.random() < FRAUD_PROBABILITY\<close>, and the two
  branches as the source has them.
\<close>

definition generate_transaction :: "transaction_generator \<Rightarrow> draws \<Rightarrow> error + transaction" where
  "generate_transaction self d =
     (if u_fraud d < FRAUD_PROBABILITY
      then generate_normal_transaction self d
      else generate_normal_transaction self d)"

subsection \<open>The fraud patterns (fraud_patterns.py)\<close>

text \<open>A \<open>FraudPatternGenerator\<close> holds the two pools it was built with.\<close>

record fraud_pattern_generator =
  users :: "user list"
  merchants :: "merchant list"

definition FraudPatternGenerator_init :: "user list \<Rightarrow> merchant list \<Rightarrow> fraud_pattern_generator" where
  "FraudPatternGenerator_init us ms = \<lparr>users = us, merchants = ms\<rparr>"

definition generate_unusual_amount :: "fraud_pattern_generator \<Rightarrow> draws \<Rightarrow> error + transaction" where
  "generate_unusual_amount self d =
     (case choice (r_user d) (users self) of
        Inl e \<Rightarrow> Inl e
      | Inr user \<Rightarrow>
     (case choice (r_merchant d) (merchants self) of
        Inl e \<Rightarrow> Inl e
      | Inr merchant \<Rightarrow>
          Inr \<lparr>transaction_id = uuid4 d,
               timestamp = now d,
               user_id = user.user_id user,
               card_number = card_fstring d,
               merchant_id = merchant.merchant_id merchant,
               merchant_name = merchant.merchant_name merchant,
               merchant_category = category merchant,
               amount = py_round (typical_spending user * uniform 10 20 (u_amount d)) 2,
               currency = ''USD'',
               location_lat = home_lat user + uniform (- 0.5) 0.5 (u_lat d),
               location_lon = home_lon user + uniform (- 0.5) 0.5 (u_lon d),
               device_id = ''DEVICE_'' @ str_int (randint 1000 9999 (r_device d)),
               ip_address = ip_fstring d,
               is_fraud = True,
               fraud_type = Some ''unusual_amount''\<rparr>))"

definition generate_geographic_anomaly :: "fraud_pattern_generator \<Rightarrow> draws \<Rightarrow> error + transaction" where
  "generate_geographic_anomaly self d =
     (case choice (r_user d) (users self) of
        Inl e \<Rightarrow> Inl e
      | Inr user \<Rightarrow>
     (case choice (r_merchant d) (merchants self) of
        Inl e \<Rightarrow> Inl e
      | Inr merchant \<Rightarrow>
     (case choice (r_sign_lat d) [- 1, 1] of
        Inl e \<Rightarrow> Inl e
      | Inr sign_lat \<Rightarrow>
     (case choice (r_sign_lon d) [- 1, 1] of
        Inl e \<Rightarrow> Inl e
      | Inr sign_lon \<Rightarrow>
          (let far_lat = home_lat user + uniform 10 30 (u_lat d) * sign_lat;
               far_lon = home_lon user + uniform 10 30 (u_lon d) * sign_lon;
               far_lat = max (fst US_LAT_RANGE) (min (snd US_LAT_RANGE) far_lat);
               far_lon = max (fst US_LON_RANGE) (min (snd US_LON_RANGE) far_lon)
           in Inr \<lparr>transaction_id = uuid4 d,
                    timestamp = now d,
                    user_id = user.user_id user,
                    card_number = card_fstring d,
                    merchant_id = merchant.merchant_id merchant,
                    merchant_name = merchant.merchant_name merchant,
                    merchant_category = category merchant,
                    amount = py_round (uniform 100 500 (u_amount d)) 2,
                    currency = ''USD'',
                    location_lat = far_lat,
                    location_lon = far_lon,
                    device_id = ''DEVICE_'' @ str_int (randint 5000 9999 (r_device d)),
                    ip_address = ip_fstring d,
                    is_fraud = True,
                    fraud_type = Some ''geographic_anomaly''\<rparr>)))))"

definition high_frequency_transaction :: "user \<Rightarrow> merchant \<Rightarrow> int \<Rightarrow> draws \<Rightarrow> transaction" where
  "high_frequency_transaction user merchant base_time d =
     (let time_offset = timedelta_seconds (randint 0 300 (r_offset d))
      in \<lparr>transaction_id = uuid4 d,
          timestamp = base_time + time_offset,
          user_id = user.user_id user,
          card_number = card_fstring d,
          merchant_id = merchant.merchant_id merchant,
          merchant_name = merchant.merchant_name merchant,
          merchant_category = category merchant,
          amount = py_round (uniform 50 300 (u_amount d)) 2,
          currency = ''USD'',
          location_lat = home_lat user + uniform (- 1) 1 (u_lat d),
          location_lon = home_lon user + uniform (- 1) 1 (u_lon d),
          device_id = ''DEVICE_'' @ str_int (randint 1000 9999 (r_device d)),
          ip_address = ip_fstring d,
          is_fraud = True,
          fraud_type = Some ''high_frequency''\<rparr>)"

text \<open>
  \<open>for i in range(num_transactions)\<close>: pass \<open>i\<close> draws \<open>ds i\<close>, picks a merchant (which
  raises on an empty pool) and appends the transaction.
\<close>

primrec high_frequency_loop ::
  "user \<Rightarrow> merchant list \<Rightarrow> int \<Rightarrow> (nat \<Rightarrow> draws) \<Rightarrow> nat list \<Rightarrow> transaction list
     \<Rightarrow> error + transaction list" where
  "high_frequency_loop user ms base_time ds [] transactions = Inr transactions"
| "high_frequency_loop user ms base_time ds (i # rest) transactions =
     (case choice (r_merchant (ds i)) ms of
        Inl e \<Rightarrow> Inl e
      | Inr merchant \<Rightarrow>
          high_frequency_loop user ms base_time ds rest
            (transactions @ [high_frequency_transaction user merchant base_time (ds i)]))"

definition generate_high_frequency ::
  "fraud_pattern_generator \<Rightarrow> draws \<Rightarrow> (nat \<Rightarrow> draws) \<Rightarrow> error + transaction list" where
  "generate_high_frequency self d ds =
     (case choice (r_user d) (users self) of
        Inl e \<Rightarrow> Inl e
      | Inr user \<Rightarrow>
          (let num_transactions = randint 8 15 (r_count d);
               base_time = now d
           in high_frequency_loop user (merchants self) base_time ds [0..<nat num_transactions] []))"

definition card_testing_transaction :: "user \<Rightarrow> merchant \<Rightarrow> int \<Rightarrow> draws \<Rightarrow> transaction" where
  "card_testing_transaction user merchant base_time d =
     (let time_offset = timedelta_minutes (randint 0 30 (r_offset d));
          test_amount = py_round (uniform 0.50 5.00 (u_amount d)) 2
      in \<lparr>transaction_id = uuid4 d,
          timestamp = base_time + time_offset,
          user_id = user.user_id user,
          card_number = card_fstring d,
          merchant_id = merchant.merchant_id merchant,
          merchant_name = merchant.merchant_name merchant,
          merchant_category = category merchant,
          amount = test_amount,
          currency = ''USD'',
          location_lat = home_lat user + uniform (- 0.3) 0.3 (u_lat d),
          location_lon = home_lon user + uniform (- 0.3) 0.3 (u_lon d),
          device_id = ''DEVICE_'' @ str_int (randint 1000 9999 (r_device d)),
          ip_address = ip_fstring d,
          is_fraud = True,
          fraud_type = Some ''card_testing''\<rparr>)"

primrec card_testing_loop ::
  "user \<Rightarrow> merchant list \<Rightarrow> int \<Rightarrow> (nat \<Rightarrow> draws) \<Rightarrow> nat list \<Rightarrow> transaction list
     \<Rightarrow> error + transaction list" where
  "card_testing_loop user ms base_time ds [] transactions = Inr transactions"
| "card_testing_loop user ms base_time ds (i # rest) transactions =
     (case choice (r_merchant (ds i)) ms of
        Inl e \<Rightarrow> Inl e
      | Inr merchant \<Rightarrow>
          card_testing_loop user ms base_time ds rest
            (transactions @ [card_testing_transaction user merchant base_time (ds i)]))"

definition generate_card_testing ::
  "fraud_pattern_generator \<Rightarrow> draws \<Rightarrow> (nat \<Rightarrow> draws) \<Rightarrow> error + transaction list" where
  "generate_card_testing self d ds =
     (case choice (r_user d) (users self) of
        Inl e \<Rightarrow> Inl e
      | Inr user \<Rightarrow>
          (let num_tests = randint 5 10 (r_count d);
               base_time = now d
           in card_testing_loop user (merchants self) base_time ds [0..<nat num_tests] []))"

definition generate_time_anomaly :: "fraud_pattern_generator \<Rightarrow> draws \<Rightarrow> error + transaction" where
  "generate_time_anomaly self d =
     (case choice (r_user d) (users self) of
        Inl e \<Rightarrow> Inl e
      | Inr user \<Rightarrow>
     (case choice (r_merchant d) (merchants self) of
        Inl e \<Rightarrow> Inl e
      | Inr merchant \<Rightarrow>
          (let base_time = replace_hour_minute (now d) (randint 1 5 (r_hour d))
                             (randint 0 59 (r_minute d))
           in Inr \<lparr>transaction_id = uuid4 d,
                    timestamp = base_time,
                    user_id = user.user_id user,
                    card_number = card_fstring d,
                    merchant_id = merchant.merchant_id merchant,
                    merchant_name = merchant.merchant_name merchant,
                    merchant_category = category merchant,
                    amount = py_round (uniform 100 800 (u_amount d)) 2,
                    currency = ''USD'',
                    location_lat = home_lat user + uniform (- 2) 2 (u_lat d),
                    location_lon = home_lon user + uniform (- 2) 2 (u_lon d),
                    device_id = ''DEVICE_'' @ str_int (randint 5000 9999 (r_device d)),
                    ip_address = ip_fstring d,
                    is_fraud = True,
                    fraud_type = Some ''time_anomaly''\<rparr>)))"

definition round_amounts :: "real list" where
  "round_amounts = [100, 200, 250, 500, 750, 1000, 1500]"

definition generate_round_amount :: "fraud_pattern_generator \<Rightarrow> draws \<Rightarrow> error + transaction" where
  "generate_round_amount self d =
     (case choice (r_user d) (users self) of
        Inl e \<Rightarrow> Inl e
      | Inr user \<Rightarrow>
     (case choice (r_merchant d) (merchants self) of
        Inl e \<Rightarrow> Inl e
      | Inr merchant \<Rightarrow>
     (case choice (r_round d) round_amounts of
        Inl e \<Rightarrow> Inl e
      | Inr amt \<Rightarrow>
          Inr \<lparr>transaction_id = uuid4 d,
               timestamp = now d,
               user_id = user.user_id user,
               card_number = card_fstring d,
               merchant_id = merchant.merchant_id merchant,
               merchant_name = merchant.merchant_name merchant,
               merchant_category = category merchant,
               amount = amt,
               currency = ''USD'',
               location_lat = home_lat user + uniform (- 1) 1 (u_lat d),
               location_lon = home_lon user + uniform (- 1) 1 (u_lon d),
               device_id = ''DEVICE_'' @ str_int (randint 1000 9999 (r_device d)),
               ip_address = ip_fstring d,
               is_fraud = True,
               fraud_type = Some ''round_amount''\<rparr>)))"

definition high_risk_categories :: "string list" where
  "high_risk_categories = [''electronics'', ''jewelry'', ''online_retail'']"

definition high_risk_merchants :: "merchant list \<Rightarrow> merchant list" where
  "high_risk_merchants ms =
     filter (\<lambda>m. category m \<in> set high_risk_categories) ms"

definition generate_high_risk_category :: "fraud_pattern_generator \<Rightarrow> draws \<Rightarrow> error + transaction" where
  "generate_high_risk_category self d =
     (case choice (r_user d) (users self) of
        Inl e \<Rightarrow> Inl e
      | Inr user \<Rightarrow>
     (case (if high_risk_merchants (merchants self) = []
            then choice (r_merchant d) (merchants self)
            else choice (r_merchant d) (high_risk_merchants (merchants self))) of
        Inl e \<Rightarrow> Inl e
      | Inr merchant \<Rightarrow>
          Inr \<lparr>transaction_id = uuid4 d,
               timestamp = now d,
               user_id = user.user_id user,
               card_number = card_fstring d,
               merchant_id = merchant.merchant_id merchant,
               merchant_name = merchant.merchant_name merchant,
               merchant_category = category merchant,
               amount = py_round (uniform 2000 5000 (u_amount d)) 2,
               currency = ''USD'',
               location_lat = home_lat user + uniform (- 3) 3 (u_lat d),
               location_lon = home_lon user + uniform (- 3) 3 (u_lon d),
               device_id = ''DEVICE_'' @ str_int (randint 5000 9999 (r_device d)),
               ip_address = ip_fstring d,
               is_fraud = True,
               fraud_type = Some ''high_risk_category''\<rparr>))"

text \<open>\<open>generate_random_fraud\<close>: the list of bound methods, one of them chosen and called.\<close>

definition fraud_generators ::
  "fraud_pattern_generator \<Rightarrow> (draws \<Rightarrow> error + transaction) list" where
  "fraud_generators self =
     [generate_unusual_amount self,
      generate_geographic_anomaly self,
      generate_time_anomaly self,
      generate_round_amount self,
      generate_high_risk_category self]"

definition generate_random_fraud :: "fraud_pattern_generator \<Rightarrow> draws \<Rightarrow> error + transaction" where
  "generate_random_fraud self d =
     (case choice (r_generator d) (fraud_generators self) of
        Inl e \<Rightarrow> Inl e
      | Inr generator \<Rightarrow> generator d)"

section \<open>Observing the generators\<close>

text \<open>The transactions a call returns: none when it raises.\<close>

definition returned :: "error + transaction \<Rightarrow> transaction list" where
  "returned r = (case r of Inl e \<Rightarrow> [] | Inr t \<Rightarrow> [t])"

definition returned_batch :: "error + transaction list \<Rightarrow> transaction list" where
  "returned_batch r = (case r of Inl e \<Rightarrow> [] | Inr ts \<Rightarrow> ts)"

text \<open>
  Every transaction that the seven patterns and \<open>generate_random_fraud\<close> return on the
  draws \<open>d\<close> (and \<open>ds i\<close> in pass \<open>i\<close> of a burst loop).
\<close>

definition fraud_outputs :: "fraud_pattern_generator \<Rightarrow> draws \<Rightarrow> (nat \<Rightarrow> draws) \<Rightarrow> transaction list" where
  "fraud_outputs self d ds =
     returned (generate_unusual_amount self d) @
     returned (generate_geographic_anomaly self d) @
     returned_batch (generate_high_frequency self d ds) @
     returned_batch (generate_card_testing self d ds) @
     returned (generate_time_anomaly self d) @
     returned (generate_round_amount self d) @
     returned (generate_high_risk_category self d) @
     returned (generate_random_fraud self d)"

text \<open>The same, with the two operations of the \<open>TransactionGenerator\<close>.\<close>

definition all_outputs ::
  "transaction_generator \<Rightarrow> fraud_pattern_generator \<Rightarrow> draws \<Rightarrow> (nat \<Rightarrow> draws) \<Rightarrow> transaction list" where
  "all_outputs gen self d ds =
     returned (generate_normal_transaction gen d) @
     returned (generate_transaction gen d) @
     fraud_outputs self d ds"

text \<open>The seven tags that the specification documents for \<open>fraud_type\<close>.\<close>

definition documented_fraud_tags :: "string list" where
  "documented_fraud_tags =
     [''unusual_amount'', ''geographic_anomaly'', ''high_frequency'', ''card_testing'',
      ''time_anomaly'', ''round_amount'', ''high_risk_category'']"

text \<open>The fields that the specification's data model lists for a Transaction.\<close>

definition spec_transaction_fields :: "string list" where
  "spec_transaction_fields =
     [''transaction_id'', ''timestamp'', ''user_id'', ''merchant_id'', ''merchant_name'',
      ''merchant_category'', ''amount'', ''currency'', ''location_lat'', ''location_lon'',
      ''device_id'', ''ip_address'', ''is_fraud'', ''fraud_type'']"

text \<open>The bounding box of the configuration.\<close>

definition in_bounding_box :: "real \<Rightarrow> real \<Rightarrow> bool" where
  "in_bounding_box lat lon =
     (fst US_LAT_RANGE \<le> lat \<and> lat \<le> snd US_LAT_RANGE \<and>
      fst US_LON_RANGE \<le> lon \<and> lon \<le> snd US_LON_RANGE)"

text \<open>
  A transaction lies within \<open>j\<close> degrees, on each axis, of the home of a user of the pool
  that it references.
\<close>

definition near_home :: "user list \<Rightarrow> real \<Rightarrow> transaction \<Rightarrow> bool" where
  "near_home us j t =
     (\<exists>u \<in> set us. transaction.user_id t = user.user_id u \<and>
        \<bar>transaction.location_lat t - home_lat u\<bar> \<le> j \<and>
        \<bar>transaction.location_lon t - home_lon u\<bar> \<le> j)"

text \<open>
  The simple coordinate distance of the specification, in degrees, between two points given
  by latitude and longitude.
\<close>

definition coordinate_distance :: "real \<Rightarrow> real \<Rightarrow> real \<Rightarrow> real \<Rightarrow> real" where
  "coordinate_distance lat1 lon1 lat2 lon2 = sqrt ((lat1 - lat2)\<^sup>2 + (lon1 - lon2)\<^sup>2)"

section \<open>Sample inputs\<close>

definition sample_entity_draws :: entity_draws where
  "sample_entity_draws =
     \<lparr>e_uuid4 = ''1a2b3c4d-0000-4000-8000-000000000000'',
      e_fake_name = ''Ada Smith'',
      e_fake_email = ''ada@example.org'',
      e_fake_phone_number = ''555-0100'',
      e_fake_company = ''Smith LLC'',
      e_u_lat = 23 / 24,
      e_u_lon = 58 / 59,
      e_u_spending = 1 / 9,
      e_r_age = 335,
      e_r_category = 4\<rparr>"

text \<open>Two uuids that agree on their first eight characters.\<close>

definition colliding_entity_draws :: "nat \<Rightarrow> entity_draws" where
  "colliding_entity_draws i =
     sample_entity_draws
       \<lparr>e_uuid4 := (if i = 0 then ''1a2b3c4d-0000-4000-8000-000000000000''
                    else ''1a2b3c4d-ffff-4fff-bfff-ffffffffffff'')\<rparr>"

text \<open>A user whose home is inside the bounding box, one degree from its north-east corner.\<close>

definition border_user :: user where
  "border_user =
     \<lparr>user.user_id = ''USER_1a2b3c4d'',
      name = ''Ada Smith'',
      email = ''ada@example.org'',
      phone = ''555-0100'',
      home_lat = 48,
      home_lon = - 67,
      typical_spending = 100,
      account_age_days = 365\<rparr>"

definition electronics_merchant :: merchant where
  "electronics_merchant =
     \<lparr>merchant.merchant_id = ''MERCH_1a2b3c4d'',
      merchant.merchant_name = ''Smith LLC'',
      category = ''electronics'',
      merchant.location_lat = 48,
      merchant.location_lon = - 67,
      average_transaction = 275\<rparr>"

definition sample_generator :: transaction_generator where
  "sample_generator =
     \<lparr>num_users = 1, num_merchants = 1,
      transaction_generator.users = [border_user],
      transaction_generator.merchants = [electronics_merchant]\<rparr>"

definition sample_self :: fraud_pattern_generator where
  "sample_self = FraudPatternGenerator_init [border_user] [electronics_merchant]"

definition sample_draws :: draws where
  "sample_draws =
     \<lparr>r_user = 0, r_merchant = 0, r_generator = 3, u_fraud = 1 / 100,
      uuid4 = ''9f8e7d6c-1111-4111-8111-111111111111'', now = 0,
      r_card = 234, u_amount = 1 / 2, r_round = 0, u_lat = 9 / 10, u_lon = 9 / 10,
      r_sign_lat = 1, r_sign_lon = 1, r_device = 0,
      r_ip1 = 9, r_ip2 = 0, r_ip3 = 0, r_ip4 = 0, fake_ipv4 = ''10.0.0.1'',
      r_count = 0, r_offset = 0, r_hour = 0, r_minute = 0\<rparr>"

definition sample_stream :: "nat \<Rightarrow> draws" where
  "sample_stream i = sample_draws"

definition sample_entity_stream :: "nat \<Rightarrow> entity_draws" where
  "sample_entity_stream i = sample_entity_draws"

text \<open>The ISO string of the clock value of the sample draws.\<close>

definition sample_isoformat :: "int \<Rightarrow> string" where
  "sample_isoformat t = ''0001-01-01T00:00:00''"

section \<open>Facts about the library calls\<close>

lemma choice_Inr: "choice r xs = Inr x \<Longrightarrow> x \<in> set xs"
  by (auto simp: choice_def split: if_splits)

lemma choice_nonempty: "xs \<noteq> [] \<Longrightarrow> \<exists>x. choice r xs = Inr x"
  by (simp add: choice_def)

lemma uniform_bounds: "unit_draw u \<Longrightarrow> a \<le> b \<Longrightarrow> a \<le> uniform a b u \<and> uniform a b u \<le> b"
  unfolding uniform_def unit_draw_def
proof -
  assume u: "0 \<le> u \<and> u < 1" and ab: "a \<le> b"
  then have "0 \<le> (b - a) * u" by simp
  moreover from u ab have "(b - a) * u \<le> (b - a) * 1"
    by (intro mult_left_mono) simp_all
  ultimately show "a \<le> a + (b - a) * u \<and> a + (b - a) * u \<le> b" by simp
qed

lemma randint_bounds: "a \<le> b \<Longrightarrow> a \<le> randint a b r \<and> randint a b r \<le> b"
  unfolding randint_def
proof -
  assume "a \<le> b"
  then have "0 < nat (b - a + 1)" by simp
  then have "r mod nat (b - a + 1) < nat (b - a + 1)" by simp
  then show "a \<le> a + int (r mod nat (b - a + 1)) \<and> a + int (r mod nat (b - a + 1)) \<le> b"
    by linarith
qed

lemma round_half_even_error: "\<bar>of_int (round_half_even x) - x\<bar> \<le> 1 / 2"
  unfolding round_half_even_def Let_def
  by (auto split: if_splits)

lemma py_round_error: "\<bar>py_round x 2 - x\<bar> \<le> 1 / 200"
proof -
  have "\<bar>of_int (round_half_even (x * 100)) - x * 100\<bar> \<le> 1 / 2"
    by (rule round_half_even_error)
  then show ?thesis unfolding py_round_def by (simp add: field_simps)
qed

section \<open>The per-slot trial of the orchestrator\<close>

lemma generate_normal_transaction_not_fraud:
  "generate_normal_transaction self d = Inr t \<Longrightarrow> \<not> is_fraud t \<and> fraud_type t = None"
  by (auto simp: generate_normal_transaction_def split: sum.splits prod.splits)

lemma sample_normal_is_fraud:
  "map_sum id is_fraud (generate_normal_transaction sample_generator d) = Inr False"
  by (simp add: generate_normal_transaction_def sample_generator_def choice_def
      electronics_merchant_def dict_get_def CATEGORY_SPENDING_RANGES_def)

text \<open>
  Claim C1. The orchestrator draws a Bernoulli trial per slot and, on success, calls a
  fraud generator, so that some outcome of the trial gives a record with
  \<open>is_fraud = true\<close>. In \<open>generate_transaction\<close> both branches of the trial call the
  normal synthesizer: whatever the trial gives, a returned record is not fraudulent.
\<close>

theorem generate_transaction_never_fraud:
  "generate_transaction self d = Inr t \<Longrightarrow> \<not> is_fraud t"
  using generate_normal_transaction_not_fraud [of self d t]
  by (simp add: generate_transaction_def)

text \<open>
  On the sample pools, with the trial succeeding (\<open>0.01 < 0.02\<close>), a record is returned
  and its label is false.
\<close>

theorem generate_transaction_never_fraud_witness:
  "u_fraud sample_draws < FRAUD_PROBABILITY \<and>
   map_sum id is_fraud (generate_transaction sample_generator sample_draws) = Inr False"
proof -
  have a: "u_fraud sample_draws < FRAUD_PROBABILITY"
    by (simp add: sample_draws_def FRAUD_PROBABILITY_def)
  obtain t where t: "generate_transaction sample_generator sample_draws = Inr t"
    using sample_normal_is_fraud [of sample_draws]
    by (cases "generate_normal_transaction sample_generator sample_draws")
       (auto simp: generate_transaction_def)
  from generate_transaction_never_fraud [OF t] t a show ?thesis by simp
qed

section \<open>Facts about the fraud patterns\<close>

lemma unusual_amount_label:
  "generate_unusual_amount self d = Inr t \<Longrightarrow> is_fraud t \<and> fraud_type t = Some ''unusual_amount''"
  by (auto simp: generate_unusual_amount_def split: sum.splits)

lemma geographic_anomaly_label:
  "generate_geographic_anomaly self d = Inr t \<Longrightarrow> is_fraud t \<and> fraud_type t = Some ''geographic_anomaly''"
  by (auto simp: generate_geographic_anomaly_def Let_def split: sum.splits)

lemma time_anomaly_label:
  "generate_time_anomaly self d = Inr t \<Longrightarrow> is_fraud t \<and> fraud_type t = Some ''time_anomaly''"
  by (auto simp: generate_time_anomaly_def Let_def split: sum.splits)

lemma round_amount_label:
  "generate_round_amount self d = Inr t \<Longrightarrow> is_fraud t \<and> fraud_type t = Some ''round_amount''"
  by (auto simp: generate_round_amount_def split: sum.splits)

lemma high_risk_category_label:
  "generate_high_risk_category self d = Inr t \<Longrightarrow> is_fraud t \<and> fraud_type t = Some ''high_risk_category''"
  by (auto simp: generate_high_risk_category_def split: sum.splits if_splits)

lemma high_frequency_loop_all:
  assumes "high_frequency_loop user ms base ds idx acc = Inr txs"
    and "\<forall>t \<in> set acc. P t"
    and "\<And>m i. i \<in> set idx \<Longrightarrow> m \<in> set ms \<Longrightarrow> P (high_frequency_transaction user m base (ds i))"
  shows "\<forall>t \<in> set txs. P t"
  using assms
proof (induction idx arbitrary: acc)
  case Nil
  then show ?case by simp
next
  case (Cons i rest)
  from Cons.prems(1) obtain m where m: "choice (r_merchant (ds i)) ms = Inr m"
    and rec: "high_frequency_loop user ms base ds rest
               (acc @ [high_frequency_transaction user m base (ds i)]) = Inr txs"
    by (auto split: sum.splits)
  have "m \<in> set ms" using m by (rule choice_Inr)
  then have "\<forall>t \<in> set (acc @ [high_frequency_transaction user m base (ds i)]). P t"
    using Cons.prems(2,3) by simp
  from Cons.IH [OF rec this] Cons.prems(3) show ?case by simp
qed

lemma high_frequency_loop_length:
  "high_frequency_loop user ms base ds idx acc = Inr txs \<Longrightarrow> length txs = length acc + length idx"
  by (induction idx arbitrary: acc) (auto split: sum.splits)

lemma high_frequency_loop_total:
  "ms \<noteq> [] \<Longrightarrow> \<exists>txs. high_frequency_loop user ms base ds idx acc = Inr txs"
  by (induction idx arbitrary: acc) (auto simp: choice_def)

lemma card_testing_loop_all:
  assumes "card_testing_loop user ms base ds idx acc = Inr txs"
    and "\<forall>t \<in> set acc. P t"
    and "\<And>m i. i \<in> set idx \<Longrightarrow> m \<in> set ms \<Longrightarrow> P (card_testing_transaction user m base (ds i))"
  shows "\<forall>t \<in> set txs. P t"
  using assms
proof (induction idx arbitrary: acc)
  case Nil
  then show ?case by simp
next
  case (Cons i rest)
  from Cons.prems(1) obtain m where m: "choice (r_merchant (ds i)) ms = Inr m"
    and rec: "card_testing_loop user ms base ds rest
               (acc @ [card_testing_transaction user m base (ds i)]) = Inr txs"
    by (auto split: sum.splits)
  have "m \<in> set ms" using m by (rule choice_Inr)
  then have "\<forall>t \<in> set (acc @ [card_testing_transaction user m base (ds i)]). P t"
    using Cons.prems(2,3) by simp
  from Cons.IH [OF rec this] Cons.prems(3) show ?case by simp
qed

lemma high_frequency_all:
  assumes "generate_high_frequency self d ds = Inr txs"
    and "\<And>u m i. u \<in> set (users self) \<Longrightarrow> m \<in> set (merchants self) \<Longrightarrow>
           P (high_frequency_transaction u m (now d) (ds i))"
  shows "\<forall>t \<in> set txs. P t"
proof -
  from assms(1) obtain u where u: "choice (r_user d) (users self) = Inr u"
    and l: "high_frequency_loop u (merchants self) (now d) ds
              [0..<nat (randint 8 15 (r_count d))] [] = Inr txs"
    by (auto simp: generate_high_frequency_def Let_def split: sum.splits)
  have "u \<in> set (users self)" using u by (rule choice_Inr)
  then show ?thesis
    using high_frequency_loop_all [OF l, of P] assms(2) by simp
qed

lemma card_testing_all:
  assumes "generate_card_testing self d ds = Inr txs"
    and "\<And>u m i. u \<in> set (users self) \<Longrightarrow> m \<in> set (merchants self) \<Longrightarrow>
           P (card_testing_transaction u m (now d) (ds i))"
  shows "\<forall>t \<in> set txs. P t"
proof -
  from assms(1) obtain u where u: "choice (r_user d) (users self) = Inr u"
    and l: "card_testing_loop u (merchants self) (now d) ds
              [0..<nat (randint 5 10 (r_count d))] [] = Inr txs"
    by (auto simp: generate_card_testing_def Let_def split: sum.splits)
  have "u \<in> set (users self)" using u by (rule choice_Inr)
  then show ?thesis
    using card_testing_loop_all [OF l, of P] assms(2) by simp
qed

lemma generate_random_fraud_cases:
  "generate_random_fraud self d = generate_unusual_amount self d \<or>
   generate_random_fraud self d = generate_geographic_anomaly self d \<or>
   generate_random_fraud self d = generate_time_anomaly self d \<or>
   generate_random_fraud self d = generate_round_amount self d \<or>
   generate_random_fraud self d = generate_high_risk_category self d"
proof -
  have "r_generator d mod 5 = 0 \<or> r_generator d mod 5 = 1 \<or> r_generator d mod 5 = 2 \<or>
        r_generator d mod 5 = 3 \<or> r_generator d mod 5 = 4"
    by presburger
  then show ?thesis
    by (auto simp: generate_random_fraud_def fraud_generators_def choice_def)
qed

section \<open>Labels\<close>

lemma all_outputs_cases:
  assumes "t \<in> set (all_outputs gen self d ds)"
  obtains (normal) "generate_normal_transaction gen d = Inr t"
  | (unusual_amount) "generate_unusual_amount self d = Inr t"
  | (geographic_anomaly) "generate_geographic_anomaly self d = Inr t"
  | (high_frequency) txs where "generate_high_frequency self d ds = Inr txs" "t \<in> set txs"
  | (card_testing) txs where "generate_card_testing self d ds = Inr txs" "t \<in> set txs"
  | (time_anomaly) "generate_time_anomaly self d = Inr t"
  | (round_amount) "generate_round_amount self d = Inr t"
  | (high_risk_category) "generate_high_risk_category self d = Inr t"
proof -
  have "generate_transaction gen d = generate_normal_transaction gen d"
    by (simp add: generate_transaction_def)
  with assms consider "generate_normal_transaction gen d = Inr t"
    | "t \<in> set (fraud_outputs self d ds)"
    by (auto simp: all_outputs_def returned_def split: sum.splits)
  then show thesis
  proof cases
    case 1
    then show thesis by (rule normal)
  next
    case 2
    then consider "generate_unusual_amount self d = Inr t"
      | "generate_geographic_anomaly self d = Inr t"
      | "t \<in> set (returned_batch (generate_high_frequency self d ds))"
      | "t \<in> set (returned_batch (generate_card_testing self d ds))"
      | "generate_time_anomaly self d = Inr t"
      | "generate_round_amount self d = Inr t"
      | "generate_high_risk_category self d = Inr t"
      | "generate_random_fraud self d = Inr t"
      by (auto simp: fraud_outputs_def returned_def split: sum.splits)
    then show thesis
    proof cases
      case 3
      then show thesis
        by (cases "generate_high_frequency self d ds") (auto simp: returned_batch_def intro: high_frequency)
    next
      case 4
      then show thesis
        by (cases "generate_card_testing self d ds") (auto simp: returned_batch_def intro: card_testing)
    next
      case 8
      with generate_random_fraud_cases [of self d] show thesis
        using unusual_amount geographic_anomaly time_anomaly round_amount high_risk_category
        by metis
    qed (auto intro: unusual_amount geographic_anomaly time_anomaly round_amount high_risk_category)
  qed
qed

lemma high_frequency_transaction_label:
  "is_fraud (high_frequency_transaction u m b d) \<and>
   fraud_type (high_frequency_transaction u m b d) = Some ''high_frequency''"
  by (simp add: high_frequency_transaction_def Let_def)

lemma card_testing_transaction_label:
  "is_fraud (card_testing_transaction u m b d) \<and>
   fraud_type (card_testing_transaction u m b d) = Some ''card_testing''"
  by (simp add: card_testing_transaction_def Let_def)

lemma sample_round_amount_returned:
  "returned (generate_round_amount sample_self sample_draws) \<noteq> [] \<and>
   fraud_type (hd (returned (generate_round_amount sample_self sample_draws))) = Some ''round_amount''"
  by (simp add: returned_def generate_round_amount_def sample_self_def
      FraudPatternGenerator_init_def choice_def round_amounts_def)

lemma sample_normal_returned:
  "returned (generate_normal_transaction sample_generator sample_draws) \<noteq> [] \<and>
   fraud_type (hd (returned (generate_normal_transaction sample_generator sample_draws))) = None"
  by (simp add: returned_def generate_normal_transaction_def sample_generator_def choice_def
      electronics_merchant_def dict_get_def CATEGORY_SPENDING_RANGES_def)

text \<open>
  Claim C2. For every transaction that the normal synthesizer, the per-slot operation or a
  fraud pattern returns, \<open>fraud_type\<close> is set if and only if \<open>is_fraud\<close> is true,
  and a \<open>fraud_type\<close> that is set is one of the seven documented tags.
\<close>

theorem fraud_type_iff_is_fraud:
  "\<forall>t \<in> set (all_outputs gen self d ds).
     ((fraud_type t \<noteq> None) = is_fraud t) \<and>
     (\<forall>tag. fraud_type t = Some tag \<longrightarrow> tag \<in> set documented_fraud_tags)"
proof
  fix t
  assume "t \<in> set (all_outputs gen self d ds)"
  then have "(\<not> is_fraud t \<and> fraud_type t = None) \<or>
             (is_fraud t \<and> (\<exists>tag \<in> set documented_fraud_tags. fraud_type t = Some tag))"
  proof (cases rule: all_outputs_cases)
    case normal
    then show ?thesis using generate_normal_transaction_not_fraud by blast
  next
    case unusual_amount
    from unusual_amount_label [OF this] show ?thesis by (simp add: documented_fraud_tags_def)
  next
    case geographic_anomaly
    from geographic_anomaly_label [OF this] show ?thesis by (simp add: documented_fraud_tags_def)
  next
    case (high_frequency txs)
    from high_frequency_all [OF high_frequency(1),
        of "\<lambda>t. is_fraud t \<and> fraud_type t = Some ''high_frequency''"]
      high_frequency(2) high_frequency_transaction_label
    show ?thesis by (simp add: documented_fraud_tags_def)
  next
    case (card_testing txs)
    from card_testing_all [OF card_testing(1),
        of "\<lambda>t. is_fraud t \<and> fraud_type t = Some ''card_testing''"]
      card_testing(2) card_testing_transaction_label
    show ?thesis by (simp add: documented_fraud_tags_def)
  next
    case time_anomaly
    from time_anomaly_label [OF this] show ?thesis by (simp add: documented_fraud_tags_def)
  next
    case round_amount
    from round_amount_label [OF this] show ?thesis by (simp add: documented_fraud_tags_def)
  next
    case high_risk_category
    from high_risk_category_label [OF this] show ?thesis by (simp add: documented_fraud_tags_def)
  qed
  then show "((fraud_type t \<noteq> None) = is_fraud t) \<and>
     (\<forall>tag. fraud_type t = Some tag \<longrightarrow> tag \<in> set documented_fraud_tags)"
    by auto
qed

text \<open>
  On the sample pools the round-amount pattern returns a record labelled fraudulent with
  its tag, and the normal synthesizer a record with no tag.
\<close>

theorem fraud_type_iff_is_fraud_witness:
  "hd (returned (generate_round_amount sample_self sample_draws))
     \<in> set (all_outputs sample_generator sample_self sample_draws sample_stream) \<and>
   is_fraud (hd (returned (generate_round_amount sample_self sample_draws))) \<and>
   fraud_type (hd (returned (generate_round_amount sample_self sample_draws))) = Some ''round_amount'' \<and>
   ''round_amount'' \<in> set documented_fraud_tags \<and>
   hd (returned (generate_normal_transaction sample_generator sample_draws))
     \<in> set (all_outputs sample_generator sample_self sample_draws sample_stream) \<and>
   \<not> is_fraud (hd (returned (generate_normal_transaction sample_generator sample_draws))) \<and>
   fraud_type (hd (returned (generate_normal_transaction sample_generator sample_draws))) = None"
proof -
  let ?f = "hd (returned (generate_round_amount sample_self sample_draws))"
  let ?n = "hd (returned (generate_normal_transaction sample_generator sample_draws))"
  let ?out = "all_outputs sample_generator sample_self sample_draws sample_stream"
  have f: "?f \<in> set ?out"
    using sample_round_amount_returned by (simp add: all_outputs_def fraud_outputs_def)
  have n: "?n \<in> set ?out"
    using sample_normal_returned by (simp add: all_outputs_def)
  from fraud_type_iff_is_fraud [of sample_generator sample_self sample_draws sample_stream] f n
  have "((fraud_type ?f \<noteq> None) = is_fraud ?f) \<and>
        (\<forall>tag. fraud_type ?f = Some tag \<longrightarrow> tag \<in> set documented_fraud_tags) \<and>
        ((fraud_type ?n \<noteq> None) = is_fraud ?n)"
    by blast
  with f n sample_round_amount_returned sample_normal_returned show ?thesis by simp
qed

section \<open>The card number\<close>

lemma digit_char_digit: "k < 10 \<Longrightarrow> digit_char k \<in> set ''0123456789''"
  unfolding digit_char_def by (rule nth_mem) simp

lemma str_nat_one_digit: "n < 10 \<Longrightarrow> str_nat n = [digit_char n]"
  by (simp add: str_nat.simps)

lemma str_nat_step: "10 \<le> n \<Longrightarrow> str_nat n = str_nat (n div 10) @ [digit_char (n mod 10)]"
  by (subst str_nat.simps) simp

lemma str_nat_four_digits:
  assumes "1000 \<le> n" "n \<le> 9999"
  shows "length (str_nat n) = 4 \<and> set (str_nat n) \<subseteq> set ''0123456789''"
proof -
  let ?a = "n div 10" and ?b = "n div 10 div 10" and ?c = "n div 10 div 10 div 10"
  from assms have a: "10 \<le> ?a" and b: "10 \<le> ?b" and c: "?c < 10" by simp_all
  have eq: "str_nat n = [digit_char ?c, digit_char (?b mod 10), digit_char (?a mod 10),
                         digit_char (n mod 10)]"
    using assms a b c
    by (simp add: str_nat_step [of n] str_nat_step [of ?a] str_nat_step [of ?b]
        str_nat_one_digit [of ?c])
  have "digit_char ?c \<in> set ''0123456789''" using c by (rule digit_char_digit)
  moreover have "digit_char (?b mod 10) \<in> set ''0123456789''" by (rule digit_char_digit) simp
  moreover have "digit_char (?a mod 10) \<in> set ''0123456789''" by (rule digit_char_digit) simp
  moreover have "digit_char (n mod 10) \<in> set ''0123456789''" by (rule digit_char_digit) simp
  ultimately show ?thesis unfolding eq by simp
qed

lemma card_fstring_form:
  "\<exists>n. 1000 \<le> n \<and> n \<le> 9999 \<and> card_fstring d = ''****-****-****-'' @ str_nat n"
proof -
  let ?i = "randint 1000 9999 (r_card d)"
  have i: "1000 \<le> ?i \<and> ?i \<le> 9999" by (rule randint_bounds) simp
  then have "1000 \<le> nat ?i" and "nat ?i \<le> 9999" by linarith+
  moreover from i have "str_int ?i = str_nat (nat ?i)" by (simp add: str_int_def)
  ultimately show ?thesis unfolding card_fstring_def by auto
qed

lemma unusual_amount_card:
  "generate_unusual_amount self d = Inr t \<Longrightarrow> card_number t = card_fstring d"
  by (auto simp: generate_unusual_amount_def split: sum.splits)

lemma geographic_anomaly_card:
  "generate_geographic_anomaly self d = Inr t \<Longrightarrow> card_number t = card_fstring d"
  by (auto simp: generate_geographic_anomaly_def Let_def split: sum.splits)

lemma time_anomaly_card:
  "generate_time_anomaly self d = Inr t \<Longrightarrow> card_number t = card_fstring d"
  by (auto simp: generate_time_anomaly_def Let_def split: sum.splits)

lemma round_amount_card:
  "generate_round_amount self d = Inr t \<Longrightarrow> card_number t = card_fstring d"
  by (auto simp: generate_round_amount_def split: sum.splits)

lemma high_risk_category_card:
  "generate_high_risk_category self d = Inr t \<Longrightarrow> card_number t = card_fstring d"
  by (auto simp: generate_high_risk_category_def split: sum.splits if_splits)

lemma normal_transaction_card:
  "generate_normal_transaction self d = Inr t \<Longrightarrow> card_number t = card_fstring d"
  by (auto simp: generate_normal_transaction_def split: sum.splits prod.splits)

lemma high_frequency_transaction_card:
  "card_number (high_frequency_transaction u m b d) = card_fstring d"
  by (simp add: high_frequency_transaction_def Let_def)

lemma card_testing_transaction_card:
  "card_number (card_testing_transaction u m b d) = card_fstring d"
  by (simp add: card_testing_transaction_def Let_def)

lemma all_outputs_card:
  assumes "t \<in> set (all_outputs gen self d ds)"
  shows "\<exists>d'. card_number t = card_fstring d'"
  using assms
proof (cases rule: all_outputs_cases)
  case (high_frequency txs)
  from high_frequency_all [OF high_frequency(1), of "\<lambda>t. \<exists>d'. card_number t = card_fstring d'"]
    high_frequency(2) high_frequency_transaction_card
  show ?thesis by blast
next
  case (card_testing txs)
  from card_testing_all [OF card_testing(1), of "\<lambda>t. \<exists>d'. card_number t = card_fstring d'"]
    card_testing(2) card_testing_transaction_card
  show ?thesis by blast
qed (blast dest: normal_transaction_card unusual_amount_card geographic_anomaly_card
       time_anomaly_card round_amount_card high_risk_category_card)+

text \<open>
  Claim C10. Every transaction that a synthesizer or a fraud pattern returns carries a
  \<open>card_number\<close> of the form \<open>****-****-****-\<close> followed by a four-digit number
  (the decimal string of a number from 1000 to 9999); the field is a key of the dictionary
  that \<open>to_dict\<close> builds, with the card number as its value; and it is not among the
  fields that the specification's data model lists.
\<close>

theorem card_number_masked_and_serialized:
  "\<forall>t \<in> set (all_outputs gen self d ds).
     (\<exists>n. 1000 \<le> n \<and> n \<le> 9999 \<and> card_number t = ''****-****-****-'' @ str_nat n \<and>
          length (str_nat n) = 4 \<and> set (str_nat n) \<subseteq> set ''0123456789'') \<and>
     ''card_number'' \<in> set (map fst (to_dict isoformat t)) \<and>
     map_of (to_dict isoformat t) ''card_number'' = Some (PyStr (card_number t)) \<and>
     ''card_number'' \<notin> set spec_transaction_fields"
proof
  fix t
  assume "t \<in> set (all_outputs gen self d ds)"
  then obtain d' where "card_number t = card_fstring d'"
    using all_outputs_card by blast
  with card_fstring_form [of d'] obtain n where
    n: "1000 \<le> n" "n \<le> 9999" "card_number t = ''****-****-****-'' @ str_nat n"
    by auto
  from str_nat_four_digits [OF n(1,2)] n
  have "\<exists>n. 1000 \<le> n \<and> n \<le> 9999 \<and> card_number t = ''****-****-****-'' @ str_nat n \<and>
          length (str_nat n) = 4 \<and> set (str_nat n) \<subseteq> set ''0123456789''"
    by blast
  moreover have "''card_number'' \<in> set (map fst (to_dict isoformat t))"
    by (simp add: to_dict_def)
  moreover have "map_of (to_dict isoformat t) ''card_number'' = Some (PyStr (card_number t))"
    by (simp add: to_dict_def)
  moreover have "''card_number'' \<notin> set spec_transaction_fields"
    by (simp add: spec_transaction_fields_def)
  ultimately show "(\<exists>n. 1000 \<le> n \<and> n \<le> 9999 \<and> card_number t = ''****-****-****-'' @ str_nat n \<and>
          length (str_nat n) = 4 \<and> set (str_nat n) \<subseteq> set ''0123456789'') \<and>
     ''card_number'' \<in> set (map fst (to_dict isoformat t)) \<and>
     map_of (to_dict isoformat t) ''card_number'' = Some (PyStr (card_number t)) \<and>
     ''card_number'' \<notin> set spec_transaction_fields"
    by blast
qed

lemma sample_card_fstring: "card_fstring sample_draws = ''****-****-****-1234''"
  by (simp add: card_fstring_def sample_draws_def randint_def str_int_def str_nat.simps digit_char_def)

lemma sample_round_amount_card:
  "card_number (hd (returned (generate_round_amount sample_self sample_draws))) = card_fstring sample_draws"
  by (simp add: returned_def generate_round_amount_def sample_self_def
      FraudPatternGenerator_init_def choice_def round_amounts_def)

text \<open>
  On the sample pools and draws the round-amount pattern returns the card number
  \<open>****-****-****-1234\<close>, and the dictionary holds it under \<open>card_number\<close>.
\<close>

theorem card_number_masked_and_serialized_witness:
  "hd (returned (generate_round_amount sample_self sample_draws))
     \<in> set (all_outputs sample_generator sample_self sample_draws sample_stream) \<and>
   card_number (hd (returned (generate_round_amount sample_self sample_draws))) = ''****-****-****-1234'' \<and>
   map_of (to_dict sample_isoformat (hd (returned (generate_round_amount sample_self sample_draws))))
     ''card_number'' = Some (PyStr ''****-****-****-1234'')"
proof -
  let ?f = "hd (returned (generate_round_amount sample_self sample_draws))"
  have f: "?f \<in> set (all_outputs sample_generator sample_self sample_draws sample_stream)"
    using sample_round_amount_returned by (simp add: all_outputs_def fraud_outputs_def)
  have c: "card_number ?f = ''****-****-****-1234''"
    using sample_round_amount_card sample_card_fstring by simp
  from card_number_masked_and_serialized
         [of sample_generator sample_self sample_draws sample_stream sample_isoformat] f
  have "map_of (to_dict sample_isoformat ?f) ''card_number'' = Some (PyStr (card_number ?f))"
    by blast
  with f c show ?thesis by simp
qed

section \<open>The unusual-amount pattern\<close>

lemma new_user_typical_spending:
  "unit_draw (e_u_spending d) \<Longrightarrow>
     50 \<le> typical_spending (new_user d) \<and> typical_spending (new_user d) \<le> 500"
  using uniform_bounds [of "e_u_spending d" 50 500] by (simp add: new_user_def)

lemma scaled_amount_bounds:
  assumes "unit_draw u" "0 \<le> (s::real)"
  shows "10 * s - 1 / 200 \<le> py_round (s * uniform 10 20 u) 2 \<and>
         py_round (s * uniform 10 20 u) 2 \<le> 20 * s + 1 / 200"
proof -
  from uniform_bounds [OF assms(1), of 10 20]
  have "10 \<le> uniform 10 20 u" and "uniform 10 20 u \<le> 20" by simp_all
  with assms(2) have "s * 10 \<le> s * uniform 10 20 u" and "s * uniform 10 20 u \<le> s * 20"
    by (simp_all add: mult_left_mono)
  with py_round_error [of "s * uniform 10 20 u"] show ?thesis by linarith
qed

text \<open>
  Claim C6. The amount of a transaction that the unusual-amount pattern returns is at least
  10 times and at most 20 times the typical spending of the user it references, up to the
  half cent that the rounding to two decimals moves it. Floats are reals here; the typical
  spending of a user is not negative (the population generator draws it from 50 to 500).
\<close>

theorem unusual_amount_bounds:
  assumes "unit_draw (u_amount d)"
    and "generate_unusual_amount self d = Inr t"
  shows "\<exists>u. choice (r_user d) (users self) = Inr u \<and>
           transaction.user_id t = user.user_id u \<and>
           (0 \<le> typical_spending u \<longrightarrow>
              10 * typical_spending u - 1 / 200 \<le> amount t \<and>
              amount t \<le> 20 * typical_spending u + 1 / 200)"
proof -
  from assms(2) obtain u where u: "choice (r_user d) (users self) = Inr u"
    and t: "transaction.user_id t = user.user_id u"
           "amount t = py_round (typical_spending u * uniform 10 20 (u_amount d)) 2"
    by (auto simp: generate_unusual_amount_def split: sum.splits)
  from scaled_amount_bounds [OF assms(1), of "typical_spending u"] u t
  show ?thesis by auto
qed

lemma sample_unusual_amount:
  "returned (generate_unusual_amount sample_self sample_draws) \<noteq> [] \<and>
   amount (hd (returned (generate_unusual_amount sample_self sample_draws))) = 1500"
  by (simp add: returned_def generate_unusual_amount_def sample_self_def
      FraudPatternGenerator_init_def choice_def border_user_def sample_draws_def
      uniform_def py_round_def round_half_even_def)

text \<open>
  The sample user spends 100 typically; with the draw one half the pattern returns a
  record (of amount 1500), between 1000 and 2000.
\<close>

theorem unusual_amount_bounds_witness:
  "unit_draw (u_amount sample_draws) \<and>
   choice (r_user sample_draws) (users sample_self) = Inr border_user \<and>
   typical_spending border_user = 100 \<and>
   returned (generate_unusual_amount sample_self sample_draws) \<noteq> [] \<and>
   10 * typical_spending border_user - 1 / 200
     \<le> amount (hd (returned (generate_unusual_amount sample_self sample_draws))) \<and>
   amount (hd (returned (generate_unusual_amount sample_self sample_draws)))
     \<le> 20 * typical_spending border_user + 1 / 200"
proof -
  have a: "unit_draw (u_amount sample_draws)"
    by (simp add: unit_draw_def sample_draws_def)
  have c: "choice (r_user sample_draws) (users sample_self) = Inr border_user"
    by (simp add: choice_def sample_self_def FraudPatternGenerator_init_def)
  have s: "typical_spending border_user = 100"
    by (simp add: border_user_def)
  obtain t where t: "generate_unusual_amount sample_self sample_draws = Inr t"
    using sample_unusual_amount
    by (cases "generate_unusual_amount sample_self sample_draws") (auto simp: returned_def)
  then have h: "hd (returned (generate_unusual_amount sample_self sample_draws)) = t"
    by (simp add: returned_def)
  from unusual_amount_bounds [OF a t] c s
  have "10 * typical_spending border_user - 1 / 200 \<le> amount t \<and>
        amount t \<le> 20 * typical_spending border_user + 1 / 200"
    by auto
  moreover have "returned (generate_unusual_amount sample_self sample_draws) \<noteq> []"
    using t by (simp add: returned_def)
  ultimately show ?thesis using a c s h by simp
qed

section \<open>The high-frequency burst\<close>

lemma high_frequency_Inr:
  assumes "generate_high_frequency self d ds = Inr txs"
  obtains u where "choice (r_user d) (users self) = Inr u"
    and "high_frequency_loop u (merchants self) (now d) ds
           [0..<nat (randint 8 15 (r_count d))] [] = Inr txs"
  using assms by (auto simp: generate_high_frequency_def Let_def split: sum.splits)

lemma high_frequency_count:
  "8 \<le> nat (randint 8 15 r) \<and> nat (randint 8 15 r) \<le> 15"
  using randint_bounds [of 8 15 r] by linarith

lemma high_frequency_transaction_timestamp:
  "b \<le> timestamp (high_frequency_transaction u m b d) \<and>
   timestamp (high_frequency_transaction u m b d) \<le> b + timedelta_seconds 300"
  using randint_bounds [of 0 300 "r_offset d"]
  by (simp add: high_frequency_transaction_def Let_def timedelta_seconds_def)

lemma high_frequency_transaction_user:
  "transaction.user_id (high_frequency_transaction u m b d) = user.user_id u"
  by (simp add: high_frequency_transaction_def Let_def)

text \<open>
  Claim C7. A batch that the high-frequency pattern returns holds between 8 and 15
  transactions, its latest timestamp is at most 300 seconds after its earliest, and all its
  records have the same \<open>user_id\<close>. With a user and a merchant in the pools the pattern
  does return a batch.
\<close>

theorem high_frequency_batch:
  "(\<forall>txs. generate_high_frequency self d ds = Inr txs \<longrightarrow>
      8 \<le> length txs \<and> length txs \<le> 15 \<and>
      Max (timestamp ` set txs) - Min (timestamp ` set txs) \<le> timedelta_seconds 300 \<and>
      (\<forall>a \<in> set txs. \<forall>b \<in> set txs. transaction.user_id a = transaction.user_id b)) \<and>
   (users self \<noteq> [] \<and> merchants self \<noteq> [] \<longrightarrow>
      (\<exists>txs. generate_high_frequency self d ds = Inr txs))"
proof (intro conjI allI impI)
  fix txs
  assume r: "generate_high_frequency self d ds = Inr txs"
  then obtain u where
    l: "high_frequency_loop u (merchants self) (now d) ds
          [0..<nat (randint 8 15 (r_count d))] [] = Inr txs"
    by (rule high_frequency_Inr)
  from high_frequency_loop_length [OF l]
  have len: "length txs = nat (randint 8 15 (r_count d))" by simp
  with high_frequency_count [of "r_count d"]
  show "8 \<le> length txs" and "length txs \<le> 15" by simp_all
  then have ne: "timestamp ` set txs \<noteq> {}" by auto
  have fin: "finite (timestamp ` set txs)" by simp
  have ts: "\<forall>t \<in> set txs. now d \<le> timestamp t \<and> timestamp t \<le> now d + timedelta_seconds 300"
    by (rule high_frequency_loop_all [OF l]) (simp_all add: high_frequency_transaction_timestamp)
  then have "Max (timestamp ` set txs) \<le> now d + timedelta_seconds 300"
    using fin ne by (simp add: Max_le_iff)
  moreover from ts have "now d \<le> Min (timestamp ` set txs)"
    using fin ne by (simp add: Min_ge_iff)
  ultimately show "Max (timestamp ` set txs) - Min (timestamp ` set txs) \<le> timedelta_seconds 300"
    by linarith
  have "\<forall>t \<in> set txs. transaction.user_id t = user.user_id u"
    by (rule high_frequency_loop_all [OF l]) (simp_all add: high_frequency_transaction_user)
  then show "\<forall>a \<in> set txs. \<forall>b \<in> set txs. transaction.user_id a = transaction.user_id b"
    by simp
next
  assume "users self \<noteq> [] \<and> merchants self \<noteq> []"
  then show "\<exists>txs. generate_high_frequency self d ds = Inr txs"
    using high_frequency_loop_total [of "merchants self"]
    by (simp add: generate_high_frequency_def Let_def choice_def)
qed

text \<open>On the sample pools and draws the batch has 8 records, all at the base time.\<close>

theorem high_frequency_batch_witness:
  "users sample_self \<noteq> [] \<and> merchants sample_self \<noteq> [] \<and>
   length (returned_batch (generate_high_frequency sample_self sample_draws sample_stream)) = 8 \<and>
   Max (timestamp ` set (returned_batch (generate_high_frequency sample_self sample_draws sample_stream)))
     - Min (timestamp ` set (returned_batch (generate_high_frequency sample_self sample_draws sample_stream)))
     \<le> timedelta_seconds 300"
proof -
  let ?r = "generate_high_frequency sample_self sample_draws sample_stream"
  have p: "users sample_self \<noteq> [] \<and> merchants sample_self \<noteq> []"
    by (simp add: sample_self_def FraudPatternGenerator_init_def)
  with high_frequency_batch [of sample_self sample_draws sample_stream]
  obtain txs where t: "?r = Inr txs" by blast
  with high_frequency_batch [of sample_self sample_draws sample_stream]
  have m: "Max (timestamp ` set txs) - Min (timestamp ` set txs) \<le> timedelta_seconds 300"
    by blast
  from t obtain u where
    "high_frequency_loop u (merchants sample_self) (now sample_draws) sample_stream
       [0..<nat (randint 8 15 (r_count sample_draws))] [] = Inr txs"
    by (rule high_frequency_Inr)
  from high_frequency_loop_length [OF this]
  have "length txs = 8" by (simp add: sample_draws_def randint_def)
  with p m t show ?thesis by (simp add: returned_batch_def)
qed

section \<open>The random pattern\<close>

text \<open>
  Claim C8. \<open>generate_random_fraud\<close> chooses among exactly the five single-transaction
  patterns, each selected by one of the five values of the index that \<open>random.choice\<close>
  draws, and returns what the chosen pattern returns: a single transaction whose tag is
  one of the five, never that of the two burst patterns.
\<close>

theorem random_fraud_selection:
  "length (fraud_generators self) = 5 \<and>
   (r_generator d mod 5 = 0 \<longrightarrow> generate_random_fraud self d = generate_unusual_amount self d) \<and>
   (r_generator d mod 5 = 1 \<longrightarrow> generate_random_fraud self d = generate_geographic_anomaly self d) \<and>
   (r_generator d mod 5 = 2 \<longrightarrow> generate_random_fraud self d = generate_time_anomaly self d) \<and>
   (r_generator d mod 5 = 3 \<longrightarrow> generate_random_fraud self d = generate_round_amount self d) \<and>
   (r_generator d mod 5 = 4 \<longrightarrow> generate_random_fraud self d = generate_high_risk_category self d) \<and>
   (\<forall>t. generate_random_fraud self d = Inr t \<longrightarrow>
      fraud_type t \<in> {Some ''unusual_amount'', Some ''geographic_anomaly'', Some ''time_anomaly'',
                       Some ''round_amount'', Some ''high_risk_category''} \<and>
      fraud_type t \<noteq> Some ''high_frequency'' \<and> fraud_type t \<noteq> Some ''card_testing'')"
proof -
  have sel: "generate_random_fraud self d = (fraud_generators self ! (r_generator d mod 5)) d"
    and len: "length (fraud_generators self) = 5"
    by (simp_all add: generate_random_fraud_def fraud_generators_def choice_def)
  have tags: "fraud_type t \<in> {Some ''unusual_amount'', Some ''geographic_anomaly'', Some ''time_anomaly'',
                       Some ''round_amount'', Some ''high_risk_category''} \<and>
      fraud_type t \<noteq> Some ''high_frequency'' \<and> fraud_type t \<noteq> Some ''card_testing''"
    if "generate_random_fraud self d = Inr t" for t
    using generate_random_fraud_cases [of self d] that
      unusual_amount_label [of self d t] geographic_anomaly_label [of self d t]
      time_anomaly_label [of self d t] round_amount_label [of self d t]
      high_risk_category_label [of self d t]
    by auto
  show ?thesis
    using len tags by (simp add: sel fraud_generators_def)
qed

text \<open>On the sample draws the index is 3 and the round-amount pattern runs.\<close>

theorem random_fraud_selection_witness:
  "r_generator sample_draws mod 5 = 3 \<and>
   generate_random_fraud sample_self sample_draws = generate_round_amount sample_self sample_draws \<and>
   returned (generate_random_fraud sample_self sample_draws) \<noteq> [] \<and>
   fraud_type (hd (returned (generate_random_fraud sample_self sample_draws))) = Some ''round_amount''"
proof -
  have r: "r_generator sample_draws mod 5 = 3" by (simp add: sample_draws_def)
  with random_fraud_selection [of sample_self sample_draws]
  have "generate_random_fraud sample_self sample_draws = generate_round_amount sample_self sample_draws"
    by blast
  with r sample_round_amount_returned show ?thesis by simp
qed

section \<open>The high-risk category pattern\<close>

lemma new_merchant_category:
  "new_merchant d = Inr m \<Longrightarrow> category m \<in> set MERCHANT_CATEGORIES"
  by (auto simp: new_merchant_def split: sum.splits dest: choice_Inr)

lemma merchants_loop_category:
  "merchants_loop ds idx acc = Inr ms \<Longrightarrow>
     \<forall>m \<in> set acc. category m \<in> set MERCHANT_CATEGORIES \<Longrightarrow>
     \<forall>m \<in> set ms. category m \<in> set MERCHANT_CATEGORIES"
proof (induction idx arbitrary: acc)
  case Nil
  then show ?case by simp
next
  case (Cons i rest)
  from Cons.prems(1) obtain m where m: "new_merchant (ds i) = Inr m"
    and rec: "merchants_loop ds rest (acc @ [m]) = Inr ms"
    by (auto split: sum.splits)
  from new_merchant_category [OF m] Cons.prems(2)
  have "\<forall>x \<in> set (acc @ [m]). category x \<in> set MERCHANT_CATEGORIES" by simp
  from Cons.IH [OF rec this] show ?case .
qed

lemma init_merchants_category:
  assumes "TransactionGenerator_init n_users n_merchants uds mds = Inr gen"
  shows "\<forall>m \<in> set (transaction_generator.merchants gen). category m \<in> set MERCHANT_CATEGORIES"
proof -
  from assms obtain ms where
    l: "merchants_loop mds [0..<nat n_merchants] [] = Inr ms"
    and g: "transaction_generator.merchants gen = ms"
    by (auto simp: TransactionGenerator_init_def generate_merchants_def generate_users_def
        split: sum.splits)
  from merchants_loop_category [OF l] g show ?thesis by simp
qed

lemma high_risk_category_merchant:
  assumes "generate_high_risk_category self d = Inr t"
    and "high_risk_merchants (merchants self) \<noteq> []"
  shows "\<exists>m \<in> set (high_risk_merchants (merchants self)). merchant_category t = category m"
  using assms
  by (auto simp: generate_high_risk_category_def split: sum.splits dest!: choice_Inr)

text \<open>
  Claim C9. The filter of the high-risk pattern lists \<open>jewelry\<close>, which is not a configured
  merchant category. So, for the merchant pool that the population generator builds, the
  high-risk subset holds only merchants of category \<open>electronics\<close> or \<open>online_retail\<close>,
  and when the subset is not empty every transaction that the pattern returns has one of
  these two categories.
\<close>

theorem high_risk_subset_of_generated_pool:
  assumes "TransactionGenerator_init n_users n_merchants uds mds = Inr gen"
    and "self = FraudPatternGenerator_init (transaction_generator.users gen)
                  (transaction_generator.merchants gen)"
  shows "''jewelry'' \<in> set high_risk_categories \<and> ''jewelry'' \<notin> set MERCHANT_CATEGORIES \<and>
         (\<forall>m \<in> set (high_risk_merchants (merchants self)).
            category m = ''electronics'' \<or> category m = ''online_retail'') \<and>
         (high_risk_merchants (merchants self) \<noteq> [] \<longrightarrow>
            (\<forall>t. generate_high_risk_category self d = Inr t \<longrightarrow>
               merchant_category t = ''electronics'' \<or> merchant_category t = ''online_retail''))"
proof -
  have ms: "merchants self = transaction_generator.merchants gen"
    using assms(2) by (simp add: FraudPatternGenerator_init_def)
  have sub: "category m = ''electronics'' \<or> category m = ''online_retail''"
    if "m \<in> set (high_risk_merchants (merchants self))" for m
  proof -
    from that have "category m \<in> set high_risk_categories" and "m \<in> set (merchants self)"
      by (simp_all add: high_risk_merchants_def)
    moreover from this(2) init_merchants_category [OF assms(1)] ms
    have "category m \<in> set MERCHANT_CATEGORIES" by simp
    ultimately show ?thesis
      by (auto simp: high_risk_categories_def MERCHANT_CATEGORIES_def)
  qed
  have "''jewelry'' \<in> set high_risk_categories \<and> ''jewelry'' \<notin> set MERCHANT_CATEGORIES"
    by (simp add: high_risk_categories_def MERCHANT_CATEGORIES_def)
  moreover have "merchant_category t = ''electronics'' \<or> merchant_category t = ''online_retail''"
    if "high_risk_merchants (merchants self) \<noteq> []" "generate_high_risk_category self d = Inr t" for t
    using high_risk_category_merchant [OF that(2,1)] sub by metis
  ultimately show ?thesis using sub by blast
qed

lemma sample_init:
  "TransactionGenerator_init 1 1 sample_entity_stream sample_entity_stream = Inr sample_generator"
  by (simp add: sample_entity_stream_def TransactionGenerator_init_def generate_users_def generate_merchants_def
      new_user_def new_merchant_def sample_entity_draws_def sample_generator_def
      border_user_def electronics_merchant_def choice_def dict_get_def
      MERCHANT_CATEGORIES_def CATEGORY_SPENDING_RANGES_def US_LAT_RANGE_def US_LON_RANGE_def
      uniform_def randint_def)

lemma sample_high_risk_returned:
  "high_risk_merchants (merchants sample_self) \<noteq> [] \<and>
   returned (generate_high_risk_category sample_self sample_draws) \<noteq> []"
  by (simp add: returned_def generate_high_risk_category_def high_risk_merchants_def
      high_risk_categories_def sample_self_def FraudPatternGenerator_init_def choice_def
      electronics_merchant_def)

text \<open>
  The sample pools are what the population generator builds from the sample draws: one
  electronics merchant, which the pattern picks.
\<close>

theorem high_risk_subset_of_generated_pool_witness:
  "TransactionGenerator_init 1 1 sample_entity_stream sample_entity_stream = Inr sample_generator \<and>
   sample_self = FraudPatternGenerator_init (transaction_generator.users sample_generator)
                   (transaction_generator.merchants sample_generator) \<and>
   high_risk_merchants (merchants sample_self) \<noteq> [] \<and>
   returned (generate_high_risk_category sample_self sample_draws) \<noteq> [] \<and>
   (merchant_category (hd (returned (generate_high_risk_category sample_self sample_draws)))
      = ''electronics'' \<or>
    merchant_category (hd (returned (generate_high_risk_category sample_self sample_draws)))
      = ''online_retail'')"
proof -
  have s: "sample_self = FraudPatternGenerator_init (transaction_generator.users sample_generator)
                   (transaction_generator.merchants sample_generator)"
    by (simp add: sample_self_def sample_generator_def)
  obtain t where t: "generate_high_risk_category sample_self sample_draws = Inr t"
    using sample_high_risk_returned
    by (cases "generate_high_risk_category sample_self sample_draws") (auto simp: returned_def)
  then have h: "hd (returned (generate_high_risk_category sample_self sample_draws)) = t"
    by (simp add: returned_def)
  from high_risk_subset_of_generated_pool [OF sample_init s, of sample_draws]
    sample_high_risk_returned t
  have "merchant_category t = ''electronics'' \<or> merchant_category t = ''online_retail''"
    by blast
  with sample_init s sample_high_risk_returned h show ?thesis by simp
qed

section \<open>The geographic anomaly\<close>

lemma sample_geographic_anomaly:
  "returned (generate_geographic_anomaly sample_self sample_draws) \<noteq> [] \<and>
   transaction.user_id (hd (returned (generate_geographic_anomaly sample_self sample_draws)))
     = user.user_id border_user \<and>
   transaction.location_lat (hd (returned (generate_geographic_anomaly sample_self sample_draws))) = 49 \<and>
   transaction.location_lon (hd (returned (generate_geographic_anomaly sample_self sample_draws))) = - 66"
  by (simp add: returned_def generate_geographic_anomaly_def sample_self_def
      FraudPatternGenerator_init_def choice_def border_user_def sample_draws_def
      uniform_def US_LAT_RANGE_def US_LON_RANGE_def Let_def)

lemma sample_draws_unit:
  "unit_draw (u_lat sample_draws) \<and> unit_draw (u_lon sample_draws) \<and>
   unit_draw (u_amount sample_draws)"
  by (simp add: unit_draw_def sample_draws_def)

lemma border_user_in_box: "in_bounding_box (home_lat border_user) (home_lon border_user)"
  by (simp add: in_bounding_box_def border_user_def US_LAT_RANGE_def US_LON_RANGE_def)

text \<open>
  Claim C5. For every transaction that the geographic-anomaly pattern returns, the
  coordinate distance between its location and the home of the user exceeds 5 degrees,
  clamping included. Here the user lives at (48, -67), inside the box; both signs come out
  positive and the offsets are 28 degrees; the clamp brings the location back to the
  corner (49, -66), at distance \<open>sqrt 2\<close> from home.
\<close>

theorem geographic_anomaly_near_home:
  "in_bounding_box (home_lat border_user) (home_lon border_user) \<and>
   unit_draw (u_lat sample_draws) \<and> unit_draw (u_lon sample_draws) \<and>
   returned (generate_geographic_anomaly sample_self sample_draws) \<noteq> [] \<and>
   transaction.user_id (hd (returned (generate_geographic_anomaly sample_self sample_draws)))
     = user.user_id border_user \<and>
   coordinate_distance
     (transaction.location_lat (hd (returned (generate_geographic_anomaly sample_self sample_draws))))
     (transaction.location_lon (hd (returned (generate_geographic_anomaly sample_self sample_draws))))
     (home_lat border_user) (home_lon border_user) = sqrt 2 \<and>
   sqrt 2 < 5"
proof -
  have "sqrt 2 < (5::real)" by (rule real_less_lsqrt) simp_all
  then show ?thesis
    using sample_geographic_anomaly sample_draws_unit border_user_in_box
    by (simp add: coordinate_distance_def border_user_def)
qed

section \<open>Locations\<close>

lemma jitter_bound:
  assumes "unit_draw u" "0 \<le> j"
  shows "\<bar>uniform (- j) j u\<bar> \<le> j"
proof -
  from uniform_bounds [OF assms(1), of "- j" j] assms(2)
  have "- j \<le> uniform (- j) j u \<and> uniform (- j) j u \<le> j" by simp
  then show ?thesis by linarith
qed

lemma geographic_anomaly_in_box:
  "generate_geographic_anomaly self d = Inr t \<Longrightarrow>
     in_bounding_box (transaction.location_lat t) (transaction.location_lon t)"
  by (auto simp: generate_geographic_anomaly_def Let_def in_bounding_box_def
      US_LAT_RANGE_def US_LON_RANGE_def split: sum.splits)

lemma near_homeI:
  "u \<in> set us \<Longrightarrow> transaction.user_id t = user.user_id u \<Longrightarrow>
     \<bar>transaction.location_lat t - home_lat u\<bar> \<le> j \<Longrightarrow>
     \<bar>transaction.location_lon t - home_lon u\<bar> \<le> j \<Longrightarrow> near_home us j t"
  unfolding near_home_def by blast

lemma unusual_amount_near_home:
  assumes "unit_draw (u_lat d)" "unit_draw (u_lon d)" "generate_unusual_amount self d = Inr t"
  shows "near_home (users self) (1 / 2) t"
proof -
  from assms(3) obtain u where "u \<in> set (users self)"
    and "transaction.user_id t = user.user_id u"
    and "transaction.location_lat t = home_lat u + uniform (- 0.5) 0.5 (u_lat d)"
    and "transaction.location_lon t = home_lon u + uniform (- 0.5) 0.5 (u_lon d)"
    by (auto simp: generate_unusual_amount_def split: sum.splits dest: choice_Inr)
  then show ?thesis
    using jitter_bound [OF assms(1), of "1 / 2"] jitter_bound [OF assms(2), of "1 / 2"]
    by (intro near_homeI [of u]) simp_all
qed

lemma time_anomaly_near_home:
  assumes "unit_draw (u_lat d)" "unit_draw (u_lon d)" "generate_time_anomaly self d = Inr t"
  shows "near_home (users self) 2 t"
proof -
  from assms(3) obtain u where "u \<in> set (users self)"
    and "transaction.user_id t = user.user_id u"
    and "transaction.location_lat t = home_lat u + uniform (- 2) 2 (u_lat d)"
    and "transaction.location_lon t = home_lon u + uniform (- 2) 2 (u_lon d)"
    by (auto simp: generate_time_anomaly_def Let_def split: sum.splits dest: choice_Inr)
  then show ?thesis
    using jitter_bound [OF assms(1), of 2] jitter_bound [OF assms(2), of 2]
    by (intro near_homeI [of u]) simp_all
qed

lemma round_amount_near_home:
  assumes "unit_draw (u_lat d)" "unit_draw (u_lon d)" "generate_round_amount self d = Inr t"
  shows "near_home (users self) 1 t"
proof -
  from assms(3) obtain u where "u \<in> set (users self)"
    and "transaction.user_id t = user.user_id u"
    and "transaction.location_lat t = home_lat u + uniform (- 1) 1 (u_lat d)"
    and "transaction.location_lon t = home_lon u + uniform (- 1) 1 (u_lon d)"
    by (auto simp: generate_round_amount_def split: sum.splits dest: choice_Inr)
  then show ?thesis
    using jitter_bound [OF assms(1), of 1] jitter_bound [OF assms(2), of 1]
    by (intro near_homeI [of u]) simp_all
qed

lemma high_risk_category_near_home:
  assumes "unit_draw (u_lat d)" "unit_draw (u_lon d)" "generate_high_risk_category self d = Inr t"
  shows "near_home (users self) 3 t"
proof -
  from assms(3) obtain u where "u \<in> set (users self)"
    and "transaction.user_id t = user.user_id u"
    and "transaction.location_lat t = home_lat u + uniform (- 3) 3 (u_lat d)"
    and "transaction.location_lon t = home_lon u + uniform (- 3) 3 (u_lon d)"
    by (auto simp: generate_high_risk_category_def split: sum.splits dest: choice_Inr)
  then show ?thesis
    using jitter_bound [OF assms(1), of 3] jitter_bound [OF assms(2), of 3]
    by (intro near_homeI [of u]) simp_all
qed

lemma high_frequency_transaction_near_home:
  assumes "unit_draw (u_lat d)" "unit_draw (u_lon d)" "u \<in> set us"
  shows "near_home us 1 (high_frequency_transaction u m b d)"
  using jitter_bound [OF assms(1), of 1] jitter_bound [OF assms(2), of 1] assms(3)
  by (intro near_homeI [of u]) (simp_all add: high_frequency_transaction_def Let_def)

lemma card_testing_transaction_near_home:
  assumes "unit_draw (u_lat d)" "unit_draw (u_lon d)" "u \<in> set us"
  shows "near_home us (3 / 10) (card_testing_transaction u m b d)"
  using jitter_bound [OF assms(1), of "3 / 10"] jitter_bound [OF assms(2), of "3 / 10"] assms(3)
  by (intro near_homeI [of u]) (simp_all add: card_testing_transaction_def Let_def)

lemma sample_high_risk_location:
  "transaction.location_lat (hd (returned (generate_high_risk_category sample_self sample_draws)))
     = 252 / 5"
  by (simp add: returned_def generate_high_risk_category_def high_risk_merchants_def
      high_risk_categories_def sample_self_def FraudPatternGenerator_init_def choice_def
      electronics_merchant_def border_user_def sample_draws_def uniform_def)

text \<open>
  Claim C4, as stated, fails: the high-risk pattern adds a jitter of up to 3 degrees to the
  home of the user and does not clamp. For the user at latitude 48 and the draw 0.9 the
  transaction lies at latitude 50.4, north of the box.
\<close>

theorem high_risk_category_leaves_box:
  "in_bounding_box (home_lat border_user) (home_lon border_user) \<and>
   unit_draw (u_lat sample_draws) \<and> unit_draw (u_lon sample_draws) \<and>
   returned (generate_high_risk_category sample_self sample_draws) \<noteq> [] \<and>
   \<not> in_bounding_box
       (transaction.location_lat (hd (returned (generate_high_risk_category sample_self sample_draws))))
       (transaction.location_lon (hd (returned (generate_high_risk_category sample_self sample_draws))))"
  using border_user_in_box sample_draws_unit sample_high_risk_returned sample_high_risk_location
  by (simp add: in_bounding_box_def US_LAT_RANGE_def)

text \<open>
  Claim C4, amended. A transaction that the geographic-anomaly pattern returns lies in the
  bounding box: that pattern clamps its offset location. The other six patterns do not
  clamp: their location is the home of a referenced user of the pool plus a jitter, on each
  axis, of at most 0.5 (unusual amount), 1 (high frequency, round amount), 0.3 (card
  testing), 2 (time anomaly) or 3 degrees (high-risk category).
\<close>

theorem fraud_location_bounds:
  assumes "unit_draw (u_lat d)" "unit_draw (u_lon d)"
    and "\<forall>i. unit_draw (u_lat (ds i)) \<and> unit_draw (u_lon (ds i))"
  shows
    "(\<forall>t. generate_geographic_anomaly self d = Inr t \<longrightarrow>
        in_bounding_box (transaction.location_lat t) (transaction.location_lon t)) \<and>
     (\<forall>t. generate_unusual_amount self d = Inr t \<longrightarrow> near_home (users self) (1 / 2) t) \<and>
     (\<forall>txs. generate_high_frequency self d ds = Inr txs \<longrightarrow>
        (\<forall>t \<in> set txs. near_home (users self) 1 t)) \<and>
     (\<forall>txs. generate_card_testing self d ds = Inr txs \<longrightarrow>
        (\<forall>t \<in> set txs. near_home (users self) (3 / 10) t)) \<and>
     (\<forall>t. generate_time_anomaly self d = Inr t \<longrightarrow> near_home (users self) 2 t) \<and>
     (\<forall>t. generate_round_amount self d = Inr t \<longrightarrow> near_home (users self) 1 t) \<and>
     (\<forall>t. generate_high_risk_category self d = Inr t \<longrightarrow> near_home (users self) 3 t)"
proof (intro conjI allI impI)
  fix txs
  assume "generate_high_frequency self d ds = Inr txs"
  then show "\<forall>t \<in> set txs. near_home (users self) 1 t"
    by (rule high_frequency_all) (simp add: high_frequency_transaction_near_home assms(3))
next
  fix txs
  assume "generate_card_testing self d ds = Inr txs"
  then show "\<forall>t \<in> set txs. near_home (users self) (3 / 10) t"
    by (rule card_testing_all) (simp add: card_testing_transaction_near_home assms(3))
qed (auto intro: geographic_anomaly_in_box unusual_amount_near_home [OF assms(1,2)]
       time_anomaly_near_home [OF assms(1,2)] round_amount_near_home [OF assms(1,2)]
       high_risk_category_near_home [OF assms(1,2)])

text \<open>
  On the sample pools and draws: the geographic anomaly lands in the box, and the high-risk
  transaction within 3 degrees of the home of the sample user.
\<close>

theorem fraud_location_bounds_witness:
  "unit_draw (u_lat sample_draws) \<and> unit_draw (u_lon sample_draws) \<and>
   (\<forall>i. unit_draw (u_lat (sample_stream i)) \<and> unit_draw (u_lon (sample_stream i))) \<and>
   returned (generate_geographic_anomaly sample_self sample_draws) \<noteq> [] \<and>
   in_bounding_box
     (transaction.location_lat (hd (returned (generate_geographic_anomaly sample_self sample_draws))))
     (transaction.location_lon (hd (returned (generate_geographic_anomaly sample_self sample_draws)))) \<and>
   returned (generate_high_risk_category sample_self sample_draws) \<noteq> [] \<and>
   near_home (users sample_self) 3
     (hd (returned (generate_high_risk_category sample_self sample_draws)))"
proof -
  have a: "unit_draw (u_lat sample_draws)" and b: "unit_draw (u_lon sample_draws)"
    using sample_draws_unit by simp_all
  have c: "\<forall>i. unit_draw (u_lat (sample_stream i)) \<and> unit_draw (u_lon (sample_stream i))"
    using a b by (simp add: sample_stream_def)
  obtain g where g: "generate_geographic_anomaly sample_self sample_draws = Inr g"
    using sample_geographic_anomaly
    by (cases "generate_geographic_anomaly sample_self sample_draws") (auto simp: returned_def)
  obtain h where h: "generate_high_risk_category sample_self sample_draws = Inr h"
    using sample_high_risk_returned
    by (cases "generate_high_risk_category sample_self sample_draws") (auto simp: returned_def)
  from fraud_location_bounds [OF a b c, of sample_self] g h
  have "in_bounding_box (transaction.location_lat g) (transaction.location_lon g) \<and>
        near_home (users sample_self) 3 h"
    by blast
  with a b c g h show ?thesis by (simp add: returned_def)
qed

section \<open>Population construction\<close>

lemma users_loop_append: "users_loop ds idx acc = acc @ map (\<lambda>i. new_user (ds i)) idx"
  by (induction idx arbitrary: acc) simp_all

lemma new_merchant_total:
  "\<exists>m. new_merchant d = Inr m \<and> merchant.merchant_id m = ''MERCH_'' @ take 8 (e_uuid4 d)"
proof -
  have ne: "MERCHANT_CATEGORIES \<noteq> []" by (simp add: MERCHANT_CATEGORIES_def)
  from choice_nonempty [OF ne] obtain c where
    c: "choice (e_r_category d) MERCHANT_CATEGORIES = Inr c" by blast
  from choice_Inr [OF c] have "\<exists>rng. dict_get CATEGORY_SPENDING_RANGES c = Inr rng"
    by (auto simp: MERCHANT_CATEGORIES_def dict_get_def CATEGORY_SPENDING_RANGES_def)
  with c show ?thesis by (auto simp: new_merchant_def)
qed

lemma merchants_loop_total:
  "\<exists>ms. merchants_loop ds idx acc = Inr (acc @ ms) \<and>
        map merchant.merchant_id ms = map (\<lambda>i. ''MERCH_'' @ take 8 (e_uuid4 (ds i))) idx"
proof (induction idx arbitrary: acc)
  case Nil
  then show ?case by simp
next
  case (Cons i rest)
  from new_merchant_total [of "ds i"] obtain m where
    m: "new_merchant (ds i) = Inr m"
       "merchant.merchant_id m = ''MERCH_'' @ take 8 (e_uuid4 (ds i))"
    by blast
  from Cons.IH [of "acc @ [m]"] obtain ms where
    "merchants_loop ds rest (acc @ [m]) = Inr ((acc @ [m]) @ ms)"
    "map merchant.merchant_id ms = map (\<lambda>i. ''MERCH_'' @ take 8 (e_uuid4 (ds i))) rest"
    by blast
  with m have "merchants_loop ds (i # rest) acc = Inr (acc @ (m # ms)) \<and>
     map merchant.merchant_id (m # ms) = map (\<lambda>i. ''MERCH_'' @ take 8 (e_uuid4 (ds i))) (i # rest)"
    by simp
  then show ?case by blast
qed

lemma sample_empty_population:
  "TransactionGenerator_init (- 3) 0 sample_entity_stream sample_entity_stream =
     Inr \<lparr>num_users = - 3, num_merchants = 0,
          transaction_generator.users = [], transaction_generator.merchants = []\<rparr>"
  by (simp add: TransactionGenerator_init_def generate_users_def generate_merchants_def)

lemma sample_colliding_population:
  "map_sum id (map user.user_id \<circ> transaction_generator.users)
     (TransactionGenerator_init 2 1 colliding_entity_draws sample_entity_stream) =
     Inr [''USER_1a2b3c4d'', ''USER_1a2b3c4d'']"
proof -
  have "[0..<nat 2] = [0, 1]" by (simp add: upt_rec)
  then show ?thesis
    using merchants_loop_total [of sample_entity_stream "[0..<nat 1]" "[]"]
    by (auto simp: TransactionGenerator_init_def generate_users_def generate_merchants_def
        new_user_def colliding_entity_draws_def sample_entity_draws_def)
qed

text \<open>
  Claim C3, as stated, fails. With the counts -3 and 0 the construction raises nothing and
  returns two empty pools. And with two users whose uuids differ but agree on their first
  eight characters it returns two users with the same id, although the docstrings call the
  ids unique.
\<close>

theorem population_construction_counterexample:
  "TransactionGenerator_init (- 3) 0 sample_entity_stream sample_entity_stream =
     Inr \<lparr>num_users = - 3, num_merchants = 0,
          transaction_generator.users = [], transaction_generator.merchants = []\<rparr> \<and>
   e_uuid4 (colliding_entity_draws 0) \<noteq> e_uuid4 (colliding_entity_draws 1) \<and>
   map_sum id (map user.user_id \<circ> transaction_generator.users)
     (TransactionGenerator_init 2 1 colliding_entity_draws sample_entity_stream) =
     Inr [''USER_1a2b3c4d'', ''USER_1a2b3c4d'']"
  using sample_empty_population sample_colliding_population
  by (simp add: colliding_entity_draws_def)

text \<open>
  Claim C3, amended. Population construction checks nothing about its counts and never
  fails: it returns pools of exactly \<open>numUsers\<close> users and \<open>numMerchants\<close> merchants, a
  count of zero or less giving an empty pool and no error; so both pools are non-empty when
  both counts are at least 1. Nothing is stated here about the ids.
\<close>

theorem population_construction:
  "\<exists>gen. TransactionGenerator_init n_users n_merchants uds mds = Inr gen \<and>
     length (transaction_generator.users gen) = nat n_users \<and>
     length (transaction_generator.merchants gen) = nat n_merchants \<and>
     (n_users \<le> 0 \<longrightarrow> transaction_generator.users gen = []) \<and>
     (n_merchants \<le> 0 \<longrightarrow> transaction_generator.merchants gen = []) \<and>
     (1 \<le> n_users \<and> 1 \<le> n_merchants \<longrightarrow>
        transaction_generator.users gen \<noteq> [] \<and> transaction_generator.merchants gen \<noteq> [])"
proof -
  let ?us = "map (\<lambda>i. new_user (uds i)) [0..<nat n_users]"
  from merchants_loop_total [of mds "[0..<nat n_merchants]" "[]"] obtain ms where
    ms: "merchants_loop mds [0..<nat n_merchants] [] = Inr ms"
        "map merchant.merchant_id ms =
           map (\<lambda>i. ''MERCH_'' @ take 8 (e_uuid4 (mds i))) [0..<nat n_merchants]"
    by auto
  let ?gen = "\<lparr>num_users = n_users, num_merchants = n_merchants,
               transaction_generator.users = ?us, transaction_generator.merchants = ms\<rparr>"
  have init: "TransactionGenerator_init n_users n_merchants uds mds = Inr ?gen"
    using ms(1)
    by (simp add: TransactionGenerator_init_def generate_users_def generate_merchants_def
        users_loop_append)
  have lm: "length ms = nat n_merchants"
    using arg_cong [OF ms(2), of length] by simp
  have "length ?us = nat n_users" by simp
  moreover have "n_users \<le> 0 \<longrightarrow> ?us = []" by simp
  moreover have "n_merchants \<le> 0 \<longrightarrow> ms = []" using lm by auto
  moreover have "1 \<le> n_users \<and> 1 \<le> n_merchants \<longrightarrow> ?us \<noteq> [] \<and> ms \<noteq> []"
    using lm by auto
  ultimately show ?thesis using init lm
    by (intro exI [of _ ?gen]) simp
qed

text \<open>
  With the counts 2 and 1 the construction returns a pool of two users and a pool of one
  merchant; with the counts -3 and 0 it returns two empty pools.
\<close>

theorem population_construction_witness:
  "(1::int) \<le> 2 \<and> (1::int) \<le> 1 \<and>
   map_sum id (length \<circ> transaction_generator.users)
     (TransactionGenerator_init 2 1 colliding_entity_draws sample_entity_stream) = Inr 2 \<and>
   map_sum id (length \<circ> transaction_generator.merchants)
     (TransactionGenerator_init 2 1 colliding_entity_draws sample_entity_stream) = Inr 1 \<and>
   (- 3::int) \<le> 0 \<and> (0::int) \<le> 0 \<and>
   map_sum id transaction_generator.users
     (TransactionGenerator_init (- 3) 0 sample_entity_stream sample_entity_stream) = Inr [] \<and>
   map_sum id transaction_generator.merchants
     (TransactionGenerator_init (- 3) 0 sample_entity_stream sample_entity_stream) = Inr []"
proof -
  from population_construction [of 2 1 colliding_entity_draws sample_entity_stream]
  obtain g where g: "TransactionGenerator_init 2 1 colliding_entity_draws sample_entity_stream = Inr g"
    "length (transaction_generator.users g) = 2"
    "length (transaction_generator.merchants g) = 1"
    by auto
  from population_construction [of "- 3" 0 sample_entity_stream sample_entity_stream]
  obtain e where e: "TransactionGenerator_init (- 3) 0 sample_entity_stream sample_entity_stream = Inr e"
    "transaction_generator.users e = []"
    "transaction_generator.merchants e = []"
    by auto
  from g e show ?thesis by simp
qed

end
